theory Spec2Isabelle
  imports Complex_Main
begin

section \<open>Python values, errors and the attribute dictionary of a catalogue object\<close>

text \<open>
  The notebook defines three classes, \<open>OEC\<close>, \<open>Star(OEC)\<close> and \<open>Exoplanet(OEC)\<close>.
  An instance keeps everything it knows in its attribute dictionary: \<open>__init__\<close> puts the
  alias list there under \<open>names\<close>, and \<open>_build_properties\<close> adds one attribute per
  catalogue element with \<open>setattr\<close>. Both share that one namespace, so the model keeps them in
  one map as well.

  Python floats are idealised as real numbers: rounding and overflow are not modelled, and a
  text that Python reads as an infinity or a NaN is outside the model. Non-finite values that
  the arithmetic itself produces (a division by zero, \<open>arcsin\<close> outside its domain) are
  modelled, see \<open>npfloat\<close> below.
\<close>

datatype error =
  NameError | AttributeError | TypeError | ValueError | OverflowError | IndexError | ErfaError

datatype pyval = PyFloat real | PyStr string | PyNames "string option list"

type_synonym attrs = "string \<rightharpoonup> pyval"

datatype cls = OEC_cls | Star_cls | Exoplanet_cls

text \<open>
  The read-only properties a class declares with \<open>@property\<close>: \<open>name\<close> in the base class,
  and the derived quantities of \<open>Exoplanet\<close>. None of them has a setter.
\<close>

fun properties :: "cls \<Rightarrow> string list" where
  "properties OEC_cls = [''name'']"
| "properties Star_cls = [''name'']"
| "properties Exoplanet_cls =
     [''name'', ''transit_duration'', ''b'', ''impact_parameter'', ''transit_depth'']"

text \<open>
  \<open>setattr(self, tag, v)\<close> for a float or a string \<open>v\<close>. A property without a setter
  raises AttributeError, \<open>__weakref__\<close> is not writable, \<open>__class__\<close> and \<open>__dict__\<close> refuse
  a value that is no class or dictionary with TypeError; every other name is stored in the
  instance dictionary, replacing what was there.
\<close>

definition setattr :: "cls \<Rightarrow> attrs \<Rightarrow> string \<Rightarrow> pyval \<Rightarrow> error + attrs" where
  "setattr c d tag v =
     (if tag \<in> set (properties c) \<or> tag = ''__weakref__'' then Inl AttributeError
      else if tag = ''__class__'' \<or> tag = ''__dict__'' then Inl TypeError
      else Inr (d(tag \<mapsto> v)))"

text \<open>
  \<open>OEC.__init__\<close> ends with \<open>self.names = list()\<close>. (It also stores the parsed catalogue
  under \<open>oec\<close>; nothing modelled here reads it.)
\<close>

definition OEC_init :: attrs where
  "OEC_init = [''names'' \<mapsto> PyNames []]"

text \<open>
  \<open>_build_properties\<close>: the loop over the children of an XML element, each a pair of a tag
  and a text, the text being \<open>None\<close> for an empty element. \<open>float\<close> is Python's builtin,
  taken as the parameter \<open>parse\<close>. The three handlers guard the \<open>try\<close> body only:
  \<open>float(None)\<close> raises TypeError (passed over), an unparsable text raises ValueError (the
  text is stored instead, and an error of that second \<open>setattr\<close> propagates), and an
  AttributeError or TypeError of the first \<open>setattr\<close> is passed over. The \<open>append\<close> of the
  \<open>else\<close> branch is outside the \<open>try\<close>: when \<open>names\<close> no longer holds a list it raises
  AttributeError.
\<close>

fun build_properties ::
  "(string \<Rightarrow> real option) \<Rightarrow> cls \<Rightarrow> (string \<times> string option) list \<Rightarrow> attrs \<Rightarrow> error + attrs"
where
  "build_properties parse c [] d = Inr d"
| "build_properties parse c ((tag, txt) # es) d =
     (if tag \<noteq> ''name'' then
        (case txt of
           None \<Rightarrow> build_properties parse c es d
         | Some s \<Rightarrow>
             (case parse s of
                Some x \<Rightarrow>
                  (case setattr c d tag (PyFloat x) of
                     Inr d' \<Rightarrow> build_properties parse c es d'
                   | Inl e \<Rightarrow>
                       (if e = AttributeError \<or> e = TypeError
                        then build_properties parse c es d else Inl e))
              | None \<Rightarrow>
                  (case setattr c d tag (PyStr s) of
                     Inr d' \<Rightarrow> build_properties parse c es d'
                   | Inl e \<Rightarrow> Inl e)))
      else
        (case d ''names'' of
           Some (PyNames ns) \<Rightarrow> build_properties parse c es (d(''names'' \<mapsto> PyNames (ns @ [txt])))
         | _ \<Rightarrow> Inl AttributeError))"

text \<open>
  The \<open>name\<close> property, \<open>self.names[0]\<close>. On a list it is the first alias or IndexError; when a
  catalogue element called \<open>names\<close> has replaced the list, indexing a string gives its first
  character and indexing a float raises TypeError.
\<close>

definition name :: "attrs \<Rightarrow> error + string option" where
  "name d =
     (case d ''names'' of
        None \<Rightarrow> Inl AttributeError
      | Some (PyNames []) \<Rightarrow> Inl IndexError
      | Some (PyNames (a # _)) \<Rightarrow> Inr a
      | Some (PyStr []) \<Rightarrow> Inl IndexError
      | Some (PyStr (ch # _)) \<Rightarrow> Inr (Some [ch])
      | Some (PyFloat _) \<Rightarrow> Inl TypeError)"

text \<open>Building a fresh record from a list of elements and then reading \<open>name\<close>.\<close>

definition build_then_name ::
  "(string \<Rightarrow> real option) \<Rightarrow> cls \<Rightarrow> (string \<times> string option) list \<Rightarrow> error + string option"
where
  "build_then_name parse c es =
     (case build_properties parse c es OEC_init of Inl e \<Rightarrow> Inl e | Inr d \<Rightarrow> name d)"

subsection \<open>The property bag as the specification words it\<close>

text \<open>
  The specification keeps the aliases and the fields apart: a bag is an alias list and a map
  from field names to floats or texts, filled pair by pair. \<open>spec_build\<close> and \<open>spec_name\<close> follow
  its contract sentence by sentence; they are compared with \<open>build_properties\<close> and \<open>name\<close> above.
\<close>

record property_bag =
  aliases :: "string option list"
  field_map :: "string \<rightharpoonup> pyval"

definition empty_bag :: property_bag where
  "empty_bag = \<lparr> aliases = [], field_map = Map.empty \<rparr>"

fun spec_build ::
  "(string \<Rightarrow> real option) \<Rightarrow> (string \<times> string option) list \<Rightarrow> property_bag \<Rightarrow> property_bag"
where
  "spec_build parse [] b = b"
| "spec_build parse ((tag, txt) # es) b =
     spec_build parse es
       (if tag = ''name'' then b\<lparr> aliases := aliases b @ [txt] \<rparr>
        else (case txt of
                None \<Rightarrow> b
              | Some s \<Rightarrow>
                  (case parse s of
                     Some x \<Rightarrow> b\<lparr> field_map := (field_map b)(tag \<mapsto> PyFloat x) \<rparr>
                   | None \<Rightarrow> b\<lparr> field_map := (field_map b)(tag \<mapsto> PyStr s) \<rparr>)))"

definition spec_name :: "property_bag \<Rightarrow> error + string option" where
  "spec_name b = (case aliases b of [] \<Rightarrow> Inl IndexError | a # _ \<Rightarrow> Inr a)"

text \<open>The attribute dictionary that holds a bag: the fields, and the aliases under \<open>names\<close>.\<close>

definition dict_of :: "property_bag \<Rightarrow> attrs" where
  "dict_of b = (field_map b)(''names'' \<mapsto> PyNames (aliases b))"

text \<open>
  A tag that \<open>setattr\<close> stores as a plain field: it is not \<open>names\<close> (the alias list lives
  there) and \<open>setattr\<close> does not refuse it. A list of elements is well tagged when every
  element is a \<open>name\<close>, has no text, or has such a tag.
\<close>

definition storable :: "cls \<Rightarrow> string \<Rightarrow> bool" where
  "storable c tag \<longleftrightarrow>
     tag \<noteq> ''names'' \<and> tag \<notin> set (properties c) \<and> tag \<noteq> ''__weakref__'' \<and>
     tag \<noteq> ''__class__'' \<and> tag \<noteq> ''__dict__''"

fun well_tagged :: "cls \<Rightarrow> (string \<times> string option) list \<Rightarrow> bool" where
  "well_tagged c [] = True"
| "well_tagged c ((tag, txt) # es) =
     ((tag = ''name'' \<or> txt = None \<or> storable c tag) \<and> well_tagged c es)"


section \<open>Floats with infinities and NaN\<close>

text \<open>
  The formulas run on numpy scalars inside astropy quantities, where a division by zero, a
  square root of a negative number and an \<open>arcsin\<close> outside \<open>[-1, 1]\<close> raise nothing: they warn
  and return an infinity or NaN, which the later operations carry along by the IEEE rules.
  \<open>npfloat\<close> is a real number or one of the three special values. Finite arithmetic is exact;
  the sign of a zero is not modelled (a zero divisor counts as \<open>+0\<close>).
\<close>

datatype npfloat = Fin real | PInf | MInf | NaN

definition signed_inf :: "real \<Rightarrow> npfloat" where
  \<comment> \<open>the product of \<open>x\<close> and plus infinity\<close>
  "signed_inf x = (if x = 0 then NaN else if 0 < x then PInf else MInf)"

fun np_neg :: "npfloat \<Rightarrow> npfloat" where
  "np_neg (Fin x) = Fin (- x)"
| "np_neg PInf = MInf"
| "np_neg MInf = PInf"
| "np_neg NaN = NaN"

fun np_add :: "npfloat \<Rightarrow> npfloat \<Rightarrow> npfloat" where
  "np_add (Fin x) (Fin y) = Fin (x + y)"
| "np_add NaN _ = NaN"
| "np_add _ NaN = NaN"
| "np_add PInf MInf = NaN"
| "np_add MInf PInf = NaN"
| "np_add PInf _ = PInf"
| "np_add _ PInf = PInf"
| "np_add MInf _ = MInf"
| "np_add _ MInf = MInf"

definition np_sub :: "npfloat \<Rightarrow> npfloat \<Rightarrow> npfloat" where
  "np_sub a b = np_add a (np_neg b)"

fun np_mul :: "npfloat \<Rightarrow> npfloat \<Rightarrow> npfloat" where
  "np_mul (Fin x) (Fin y) = Fin (x * y)"
| "np_mul NaN _ = NaN"
| "np_mul _ NaN = NaN"
| "np_mul (Fin x) PInf = signed_inf x"
| "np_mul (Fin x) MInf = signed_inf (- x)"
| "np_mul PInf (Fin y) = signed_inf y"
| "np_mul MInf (Fin y) = signed_inf (- y)"
| "np_mul PInf PInf = PInf"
| "np_mul PInf MInf = MInf"
| "np_mul MInf PInf = MInf"
| "np_mul MInf MInf = PInf"

fun np_div :: "npfloat \<Rightarrow> npfloat \<Rightarrow> npfloat" where
  "np_div (Fin x) (Fin y) = (if y = 0 then signed_inf x else Fin (x / y))"
| "np_div NaN _ = NaN"
| "np_div _ NaN = NaN"
| "np_div (Fin x) _ = Fin 0"
| "np_div PInf (Fin y) = (if 0 \<le> y then PInf else MInf)"
| "np_div MInf (Fin y) = (if 0 \<le> y then MInf else PInf)"
| "np_div _ _ = NaN"

definition np_pow2 :: "npfloat \<Rightarrow> npfloat" where
  "np_pow2 a = np_mul a a"

fun np_sqrt :: "npfloat \<Rightarrow> npfloat" where
  "np_sqrt (Fin x) = (if 0 \<le> x then Fin (sqrt x) else NaN)"
| "np_sqrt PInf = PInf"
| "np_sqrt _ = NaN"

fun np_cos :: "npfloat \<Rightarrow> npfloat" where
  "np_cos (Fin x) = Fin (cos x)"
| "np_cos _ = NaN"

fun np_arcsin :: "npfloat \<Rightarrow> npfloat" where
  "np_arcsin (Fin x) = (if - 1 \<le> x \<and> x \<le> 1 then Fin (arcsin x) else NaN)"
| "np_arcsin _ = NaN"

text \<open>Comparisons: every comparison with NaN is false.\<close>

fun np_le :: "npfloat \<Rightarrow> npfloat \<Rightarrow> bool" where
  "np_le (Fin x) (Fin y) = (x \<le> y)"
| "np_le NaN _ = False"
| "np_le _ NaN = False"
| "np_le MInf _ = True"
| "np_le _ PInf = True"
| "np_le _ _ = False"

fun np_lt :: "npfloat \<Rightarrow> npfloat \<Rightarrow> bool" where
  "np_lt (Fin x) (Fin y) = (x < y)"
| "np_lt NaN _ = False"
| "np_lt _ NaN = False"
| "np_lt PInf _ = False"
| "np_lt _ MInf = False"
| "np_lt _ _ = True"

definition np_ge :: "npfloat \<Rightarrow> npfloat \<Rightarrow> bool" where
  "np_ge a b = np_le b a"

definition np_gt :: "npfloat \<Rightarrow> npfloat \<Rightarrow> bool" where
  "np_gt a b = np_lt b a"


section \<open>Quantities: a number and a unit\<close>

text \<open>
  An astropy \<open>Quantity\<close> is a number with a unit. In every expression of the notebook the
  units are literals, so their dimensions always agree where astropy checks them; the model
  keeps of a unit only its scale, the size of one unit in the SI unit of its dimension (metre,
  second, radian), and a ratio of two lengths has the ratio of their scales. Multiplying and
  dividing combine the units and leave the numbers unconverted; adding, subtracting and the
  functions that need a pure number or an angle convert first, as astropy does.
\<close>

type_synonym quantity = "npfloat \<times> real"

text \<open>
  The scales of the units the notebook uses: the degree in radians, the nominal solar and
  Jupiter radii and the astronomical unit in metres (the IAU values astropy ships), the day
  and the minute in seconds. The theorems use of the three lengths only that they are
  positive; the examples also their values.
\<close>

definition u_degree :: real where "u_degree = pi / 180"
definition u_R_sun :: real where "u_R_sun = 695700000"
definition u_R_jup :: real where "u_R_jup = 71492000"
definition u_AU :: real where "u_AU = 149597870700"
definition u_m :: real where "u_m = 1"
definition u_day :: real where "u_day = 86400"
definition u_minute :: real where "u_minute = 60"

definition as_quantity :: "real \<Rightarrow> real \<Rightarrow> quantity" where
  \<comment> \<open>\<open>x * u.unit\<close>\<close>
  "as_quantity x u = (Fin x, u)"

definition q_to :: "quantity \<Rightarrow> real \<Rightarrow> quantity" where
  \<comment> \<open>\<open>q.to(unit)\<close>\<close>
  "q_to q v = (np_mul (fst q) (Fin (snd q / v)), v)"

definition q_mul :: "quantity \<Rightarrow> quantity \<Rightarrow> quantity" where
  "q_mul p q = (np_mul (fst p) (fst q), snd p * snd q)"

definition q_div :: "quantity \<Rightarrow> quantity \<Rightarrow> quantity" where
  "q_div p q = (np_div (fst p) (fst q), snd p / snd q)"

definition q_pow2 :: "quantity \<Rightarrow> quantity" where
  \<comment> \<open>\<open>q ** 2\<close>\<close>
  "q_pow2 q = (np_pow2 (fst q), snd q * snd q)"

definition q_sub :: "quantity \<Rightarrow> quantity \<Rightarrow> quantity" where
  \<comment> \<open>\<open>p - q\<close>: \<open>q\<close> is converted to the unit of \<open>p\<close>\<close>
  "q_sub p q = (np_sub (fst p) (fst (q_to q (snd p))), snd p)"

definition scalar_add :: "real \<Rightarrow> quantity \<Rightarrow> quantity" where
  \<comment> \<open>\<open>x + q\<close> for a plain number \<open>x\<close>: \<open>q\<close> is converted to a pure number\<close>
  "scalar_add x q = (np_add (Fin x) (fst (q_to q 1)), 1)"

definition scalar_sub :: "real \<Rightarrow> quantity \<Rightarrow> quantity" where
  \<comment> \<open>\<open>x - q\<close> for a plain number \<open>x\<close>\<close>
  "scalar_sub x q = (np_sub (Fin x) (fst (q_to q 1)), 1)"

definition q_div_scalar :: "quantity \<Rightarrow> real \<Rightarrow> quantity" where
  \<comment> \<open>\<open>q / x\<close> for a plain number \<open>x\<close>\<close>
  "q_div_scalar q x = (np_div (fst q) (Fin x), snd q)"

definition q_mul_scalar :: "quantity \<Rightarrow> npfloat \<Rightarrow> quantity" where
  \<comment> \<open>\<open>q * x\<close> for a numpy scalar \<open>x\<close>\<close>
  "q_mul_scalar q x = (np_mul (fst q) x, snd q)"

definition q_cos :: "quantity \<Rightarrow> quantity" where
  \<comment> \<open>\<open>np.cos(q)\<close>: the angle in radians, the result a pure number\<close>
  "q_cos q = (np_cos (fst (q_to q 1)), 1)"

definition q_sqrt :: "quantity \<Rightarrow> quantity" where
  "q_sqrt q = (np_sqrt (fst q), sqrt (snd q))"

definition q_arcsin :: "quantity \<Rightarrow> quantity" where
  \<comment> \<open>\<open>np.arcsin(q)\<close>: of the pure number, the result in radians\<close>
  "q_arcsin q = (np_arcsin (fst (q_to q 1)), 1)"


section \<open>The planet and its transit calculator\<close>

text \<open>
  An \<open>Exoplanet\<close> has the attributes read from the catalogue (\<open>dict\<close>), its parent star
  (\<open>star\<close>, of which the methods read attributes only; \<open>None\<close> is the constructor's default) and
  the caches \<open>_transit_duration\<close> and \<open>_transit_depth\<close> of its derived properties. The
  constructor assigns \<open>star\<close> and the caches after \<open>_build_properties\<close>, so a catalogue element
  of one of these names is overwritten: the model drops it from \<open>dict\<close>. (The impact parameter
  \<open>b\<close> and its cache are not modelled; no method below reads them.)
\<close>

record exoplanet =
  dict :: attrs
  star :: "attrs option"
  transit_duration_cache :: "npfloat option"
  transit_depth_cache :: "quantity option"

definition Exoplanet_init ::
  "(string \<Rightarrow> real option) \<Rightarrow> (string \<times> string option) list \<Rightarrow> attrs option \<Rightarrow> error + exoplanet"
where
  "Exoplanet_init parse element parent =
     (case build_properties parse Exoplanet_cls element OEC_init of
        Inl e \<Rightarrow> Inl e
      | Inr d \<Rightarrow>
          Inr \<lparr> dict = d(''star'' := None, ''_transit_duration'' := None, ''_b'' := None,
                         ''_transit_depth'' := None),
                star = parent, transit_duration_cache = None, transit_depth_cache = None \<rparr>)"

text \<open>
  Reading a numeric attribute. A missing attribute raises AttributeError. An attribute that
  holds a text (\<open>_build_properties\<close> stores the text when \<open>float\<close> fails) is no operand for
  what follows: \<open>Time\<close> and \<open>TimeDelta\<close> reject it with ValueError, and so does the product
  with a unit, which reads the text as the name of a unit (a text that does name a unit is
  outside the model).
\<close>

definition getattr_float :: "attrs \<Rightarrow> string \<Rightarrow> error + real" where
  "getattr_float d nm =
     (case d nm of
        None \<Rightarrow> Inl AttributeError
      | Some (PyFloat x) \<Rightarrow> Inr x
      | Some _ \<Rightarrow> Inl ValueError)"

definition bind_err :: "error + 'a \<Rightarrow> ('a \<Rightarrow> error + 'b) \<Rightarrow> error + 'b" where
  "bind_err r f = (case r of Inl e \<Rightarrow> Inl e | Inr x \<Rightarrow> f x)"

text \<open>
  The expression of \<open>transit_duration\<close>, operator by operator, on the five fields in the
  units the method gives them; the result is the number of minutes.
\<close>

definition compute_transit_duration :: "real \<Rightarrow> real \<Rightarrow> real \<Rightarrow> real \<Rightarrow> real \<Rightarrow> npfloat" where
  "compute_transit_duration inclination star_radius radius period semimajoraxis =
     (let i = as_quantity inclination u_degree;
          r_s = as_quantity star_radius u_R_sun;
          r_p = as_quantity radius u_R_jup;
          per = as_quantity period u_day;
          a = as_quantity semimajoraxis u_AU
      in fst (q_to
           (q_mul_scalar (q_div_scalar per pi)
              (fst (q_arcsin
                 (q_mul (q_div r_s a)
                    (q_sqrt
                       (q_div
                          (q_sub (q_pow2 (scalar_add 1 (q_div r_p r_s)))
                                 (q_pow2 (q_mul (q_div a r_s) (q_cos i))))
                          (scalar_sub 1 (q_pow2 (q_cos i)))))))))
           u_minute))"

text \<open>
  The attribute reads in the order of the method's first five lines; \<open>self.star.radius\<close> on a
  planet without a star raises AttributeError.
\<close>

definition transit_duration_uncached :: "exoplanet \<Rightarrow> error + npfloat" where
  "transit_duration_uncached self =
     bind_err (getattr_float (dict self) ''inclination'') (\<lambda>inclination.
     bind_err (case star self of None \<Rightarrow> Inl AttributeError
               | Some sd \<Rightarrow> getattr_float sd ''radius'') (\<lambda>star_radius.
     bind_err (getattr_float (dict self) ''radius'') (\<lambda>radius.
     bind_err (getattr_float (dict self) ''period'') (\<lambda>period.
     bind_err (getattr_float (dict self) ''semimajoraxis'') (\<lambda>semimajoraxis.
       Inr (compute_transit_duration inclination star_radius radius period semimajoraxis))))))"

text \<open>
  The property: the cached number if there is one, else the computed one, which it stores.
  The result is paired with the planet after the call.
\<close>

definition transit_duration :: "exoplanet \<Rightarrow> (error + npfloat) \<times> exoplanet" where
  "transit_duration self =
     (case transit_duration_cache self of
        Some v \<Rightarrow> (Inr v, self)
      | None \<Rightarrow>
          (case transit_duration_uncached self of
             Inl e \<Rightarrow> (Inl e, self)
           | Inr v \<Rightarrow> (Inr v, self\<lparr> transit_duration_cache := Some v \<rparr>)))"

definition compute_transit_depth :: "real \<Rightarrow> real \<Rightarrow> quantity" where
  "compute_transit_depth star_radius radius =
     (let r_s = q_to (as_quantity star_radius u_R_sun) u_m;
          r_p = q_to (as_quantity radius u_R_jup) u_m
      in q_pow2 (q_div r_p r_s))"

definition transit_depth_uncached :: "exoplanet \<Rightarrow> error + quantity" where
  "transit_depth_uncached self =
     bind_err (case star self of None \<Rightarrow> Inl AttributeError
               | Some sd \<Rightarrow> getattr_float sd ''radius'') (\<lambda>star_radius.
     bind_err (getattr_float (dict self) ''radius'') (\<lambda>radius.
       Inr (compute_transit_depth star_radius radius)))"

definition transit_depth :: "exoplanet \<Rightarrow> (error + quantity) \<times> exoplanet" where
  "transit_depth self =
     (case transit_depth_cache self of
        Some v \<Rightarrow> (Inr v, self)
      | None \<Rightarrow>
          (case transit_depth_uncached self of
             Inl e \<Rightarrow> (Inl e, self)
           | Inr v \<Rightarrow> (Inr v, self\<lparr> transit_depth_cache := Some v \<rparr>)))"

text \<open>
  The caches hold nothing but what the properties compute from the fields. This is so after
  the constructor, and the properties keep it so.
\<close>

definition caches_valid :: "exoplanet \<Rightarrow> bool" where
  "caches_valid self \<longleftrightarrow>
     (case transit_duration_cache self of
        None \<Rightarrow> True | Some v \<Rightarrow> transit_duration_uncached self = Inr v) \<and>
     (case transit_depth_cache self of
        None \<Rightarrow> True | Some q \<Rightarrow> transit_depth_uncached self = Inr q)"


subsection \<open>The time library\<close>

text \<open>
  The two time methods work on astropy's \<open>Time\<close> and \<open>TimeDelta\<close>. An instant is a point of
  the continuous time in which astropy adds and subtracts (its TAI scale), counted in days of
  86400 seconds: a real number. What the library decides on its own is a parameter of the
  model, the record \<open>clock\<close>:

  \<^item> \<open>from_jd\<close>, the instant of \<open>Time(x, format='jd')\<close>, which reads \<open>x\<close> as a Julian date
    of the UTC scale (the two scales differ by the leap seconds);
  \<^item> \<open>parse_time\<close>, the instant of \<open>Time(text)\<close>, or nothing when the text is rejected
    (ValueError);
  \<^item> \<open>supported\<close>, the instants the library's calendar covers: it converts between the two
    scales around every addition and subtraction and raises ErfaError outside that range
    (before the year -4799);
  \<^item> \<open>isot\<close>, the text \<open>Time.isot\<close> gives for an instant, with three decimals of a second.

  The arithmetic on instants itself is exact in the model: the rounding of astropy's pairs of
  floats is not modelled.
\<close>

record clock =
  from_jd :: "real \<Rightarrow> real"
  parse_time :: "string \<Rightarrow> real option"
  supported :: "real \<Rightarrow> bool"
  isot :: "real \<Rightarrow> string"

text \<open>A method takes an instant as a \<open>Time\<close> or as a text that \<open>Time(...)\<close> parses.\<close>

datatype time_arg = TimeStr string | TimeVal real

definition to_time :: "clock \<Rightarrow> time_arg \<Rightarrow> error + real" where
  "to_time ck t =
     (case t of
        TimeVal x \<Rightarrow> Inr x
      | TimeStr s \<Rightarrow> (case parse_time ck s of None \<Rightarrow> Inl ValueError | Some x \<Rightarrow> Inr x))"

text \<open>
  \<open>Time + TimeDelta\<close>: the operand and the sum both pass through the conversion of scales.
  \<open>Time - Time\<close>, read in seconds with \<open>.sec\<close>, converts both operands.
\<close>

definition time_add :: "clock \<Rightarrow> real \<Rightarrow> real \<Rightarrow> error + real" where
  "time_add ck t delta =
     (if supported ck t \<and> supported ck (t + delta) then Inr (t + delta) else Inl ErfaError)"

definition seconds_between :: "clock \<Rightarrow> real \<Rightarrow> real \<Rightarrow> error + real" where
  "seconds_between ck t t' =
     (if supported ck t \<and> supported ck t' then Inr ((t - t') * 86400) else Inl ErfaError)"

text \<open>
  \<open>Time + Quantity\<close> and \<open>Time - Quantity\<close>: the quantity, here a number of days, is first made
  a \<open>TimeDelta\<close>, which takes finite numbers only; \<open>Time\<close> answers a quantity that is not
  finite with TypeError.
\<close>

definition time_shift :: "clock \<Rightarrow> real \<Rightarrow> npfloat \<Rightarrow> error + real" where
  "time_shift ck t days =
     (case days of Fin x \<Rightarrow> time_add ck t x | _ \<Rightarrow> Inl TypeError)"


subsection \<open>Windows and the module-level variable\<close>

text \<open>
  Both methods read the reference transit and the period from \<open>star.planet\<close>, where \<open>star\<close> is
  not the receiver's attribute but the variable of that name in the notebook's module
  namespace. The model passes the binding of that variable as an argument: \<open>None\<close> when the
  name is unbound (NameError), else the \<open>Star\<close> it is bound to, given by its own attributes and
  its planet.

  Inside the loops a window is three \<open>Time\<close> objects (\<open>times\<close>); what the methods hand out is
  the named tuple \<open>Transit\<close> of their three \<open>isot\<close> texts.
\<close>

record times =
  t_ingress :: real
  t_midpoint :: real
  t_egress :: real

record transit =
  ingress :: string
  midpoint :: string
  egress :: string

record Star =
  star_dict :: attrs
  planet :: exoplanet

definition Transit :: "clock \<Rightarrow> times \<Rightarrow> transit" where
  \<comment> \<open>\<open>Transit(ingress.isot, midpoint.isot, egress.isot)\<close>\<close>
  "Transit ck w =
     \<lparr> ingress = isot ck (t_ingress w), midpoint = isot ck (t_midpoint w),
       egress = isot ck (t_egress w) \<rparr>"

text \<open>
  \<open>int((t - transittime).sec // period_delta.sec)\<close>: both differences in seconds, floor
  division of numpy floats. With a period of zero the quotient is NaN when the dividend is
  zero and an infinity otherwise, and \<open>int\<close> raises ValueError on the one and OverflowError
  on the other.
\<close>

definition period_index :: "clock \<Rightarrow> real \<Rightarrow> real \<Rightarrow> real \<Rightarrow> error + int" where
  "period_index ck t transittime period =
     bind_err (seconds_between ck t transittime) (\<lambda>secs.
       if period * 86400 = 0 then (if secs = 0 then Inl ValueError else Inl OverflowError)
       else Inr \<lfloor>secs / (period * 86400)\<rfloor>)"

text \<open>\<open>self.transit_duration * u.minute / 2\<close>, as the number of days added to an instant.\<close>

definition half_duration :: "npfloat \<Rightarrow> npfloat" where
  "half_duration d = fst (q_to (q_div_scalar (d, u_minute) 2) u_day)"

text \<open>
  The three assignments both loops share: the window of index \<open>n\<close>. The midpoint comes
  first; then the property \<open>transit_duration\<close> is read twice, for the ingress and for the
  egress, and each read may fill the cache or raise.
\<close>

definition window :: "clock \<Rightarrow> real \<Rightarrow> real \<Rightarrow> exoplanet \<Rightarrow> int \<Rightarrow> (error + times) \<times> exoplanet" where
  "window ck transittime period self n =
     (case time_add ck transittime (of_int n * period) of
        Inl e \<Rightarrow> (Inl e, self)
      | Inr mid \<Rightarrow>
     (case transit_duration self of
        (Inl e, s1) \<Rightarrow> (Inl e, s1)
      | (Inr d1, s1) \<Rightarrow>
     (case time_shift ck mid (np_neg (half_duration d1)) of
        Inl e \<Rightarrow> (Inl e, s1)
      | Inr ing \<Rightarrow>
     (case transit_duration s1 of
        (Inl e, s2) \<Rightarrow> (Inl e, s2)
      | (Inr d2, s2) \<Rightarrow>
     (case time_shift ck mid (half_duration d2) of
        Inl e \<Rightarrow> (Inl e, s2)
      | Inr egr \<Rightarrow>
          (Inr \<lparr> t_ingress = ing, t_midpoint = mid, t_egress = egr \<rparr>, s2))))))"

definition covers :: "times \<Rightarrow> real \<Rightarrow> bool" where
  \<comment> \<open>\<open>t1 >= ingress and t1 <= egress\<close>\<close>
  "covers w t \<longleftrightarrow> t_ingress w \<le> t \<and> t \<le> t_egress w"

datatype in_transit_result = Flag bool | FlagTimes bool transit

definition in_transit_return :: "clock \<Rightarrow> bool \<Rightarrow> bool \<Rightarrow> times \<Rightarrow> in_transit_result" where
  "in_transit_return ck with_times flag w =
     (if with_times then FlagTimes flag (Transit ck w) else Flag flag)"

definition in_transit ::
  "clock \<Rightarrow> Star option \<Rightarrow> exoplanet \<Rightarrow> time_arg \<Rightarrow> bool
     \<Rightarrow> (error + in_transit_result) \<times> exoplanet"
where
  "in_transit ck module_star self t1 with_times =
     (case to_time ck t1 of
        Inl e \<Rightarrow> (Inl e, self)
      | Inr t \<Rightarrow>
     (case module_star of
        None \<Rightarrow> (Inl NameError, self)
      | Some st \<Rightarrow>
     (case getattr_float (dict (planet st)) ''transittime'' of
        Inl e \<Rightarrow> (Inl e, self)
      | Inr transittime \<Rightarrow>
     (case getattr_float (dict (planet st)) ''period'' of
        Inl e \<Rightarrow> (Inl e, self)
      | Inr period \<Rightarrow>
     (case period_index ck t (from_jd ck transittime) period of
        Inl e \<Rightarrow> (Inl e, self)
      | Inr num \<Rightarrow>
     (case window ck (from_jd ck transittime) period self num of
        (Inl e, s1) \<Rightarrow> (Inl e, s1)
      | (Inr w1, s1) \<Rightarrow>
          if covers w1 t then (Inr (in_transit_return ck with_times True w1), s1)
          else
            (case window ck (from_jd ck transittime) period s1 (num + 1) of
               (Inl e, s2) \<Rightarrow> (Inl e, s2)
             | (Inr w2, s2) \<Rightarrow>
                 (Inr (in_transit_return ck with_times (covers w2 t) w2), s2))))))))"

text \<open>
  The \<open>while True\<close> loop of \<open>transits_in_range\<close>. Nothing bounds it in the source, so the
  model is a partial function: \<open>None\<close> is a loop that never ends. A window whose ingress is
  not after the end is appended as the tuple of its three texts.
\<close>

partial_function (option) transits_loop ::
  "clock \<Rightarrow> real \<Rightarrow> real \<Rightarrow> real \<Rightarrow> int \<Rightarrow> transit list \<Rightarrow> exoplanet
     \<Rightarrow> ((error + transit list) \<times> exoplanet) option"
where
  "transits_loop ck transittime period t1 num transits self =
     (case window ck transittime period self num of
        (Inl e, s1) \<Rightarrow> Some (Inl e, s1)
      | (Inr w, s1) \<Rightarrow>
          if t1 < t_ingress w then Some (Inr transits, s1)
          else transits_loop ck transittime period t1 (num + 1) (transits @ [Transit ck w]) s1)"

definition transits_in_range ::
  "clock \<Rightarrow> Star option \<Rightarrow> exoplanet \<Rightarrow> time_arg \<Rightarrow> time_arg \<Rightarrow> int
     \<Rightarrow> ((error + transit list) \<times> exoplanet) option"
where
  "transits_in_range ck module_star self t0 t1 num_of_transits =
     (case to_time ck t0 of
        Inl e \<Rightarrow> Some (Inl e, self)
      | Inr start \<Rightarrow>
     (case to_time ck t1 of
        Inl e \<Rightarrow> Some (Inl e, self)
      | Inr stop \<Rightarrow>
     (case module_star of
        None \<Rightarrow> Some (Inl NameError, self)
      | Some st \<Rightarrow>
     (case getattr_float (dict (planet st)) ''transittime'' of
        Inl e \<Rightarrow> Some (Inl e, self)
      | Inr transittime \<Rightarrow>
     (case getattr_float (dict (planet st)) ''period'' of
        Inl e \<Rightarrow> Some (Inl e, self)
      | Inr period \<Rightarrow>
     (case period_index ck start (from_jd ck transittime) period of
        Inl e \<Rightarrow> Some (Inl e, self)
      | Inr num \<Rightarrow>
          transits_loop ck (from_jd ck transittime) period stop (num - 1) [] self))))))"
subsection \<open>The transit-duration formula as the specification words it\<close>

text \<open>
  The specification gives the duration as
  \<open>(period / pi) * arcsin((R_star / a) * sqrt(((1 + R_planet / R_star)\<^sup>2 - ((a / R_star) * cos i)\<^sup>2) / (1 - cos\<^sup>2 i)))\<close>
  in minutes, every length converted to a common unit before a ratio is taken and the
  inclination in radians. \<open>spec_transit_duration\<close> is that reading in the arithmetic of
  floats: the three lengths in metres first, the period in minutes (1440 to the day).
  \<open>transit_formula\<close> is the same formula on real numbers, meaningful where \<open>in_domain\<close> holds:
  no denominator is zero, the square root is of a non-negative number and the argument of
  \<open>arcsin\<close> lies in \<open>[-1, 1]\<close>.
\<close>

definition spec_transit_duration :: "real \<Rightarrow> real \<Rightarrow> real \<Rightarrow> real \<Rightarrow> real \<Rightarrow> npfloat" where
  "spec_transit_duration inclination star_radius radius period semimajoraxis =
     (let R_star = Fin (star_radius * u_R_sun);
          R_planet = Fin (radius * u_R_jup);
          a = Fin (semimajoraxis * u_AU);
          i = inclination * pi / 180;
          x = np_mul (np_div R_star a)
                (np_sqrt
                   (np_div
                      (np_sub (np_pow2 (np_add (Fin 1) (np_div R_planet R_star)))
                              (np_pow2 (np_mul (np_div a R_star) (Fin (cos i)))))
                      (Fin (1 - (cos i)\<^sup>2))))
      in np_mul (Fin (period * 1440 / pi)) (np_arcsin x))"

definition transit_radicand :: "real \<Rightarrow> real \<Rightarrow> real \<Rightarrow> real \<Rightarrow> real" where
  "transit_radicand inclination star_radius radius semimajoraxis =
     ((1 + radius * u_R_jup / (star_radius * u_R_sun))\<^sup>2
        - (semimajoraxis * u_AU / (star_radius * u_R_sun) * cos (inclination * pi / 180))\<^sup>2)
     / (1 - (cos (inclination * pi / 180))\<^sup>2)"

definition transit_arcsin_arg :: "real \<Rightarrow> real \<Rightarrow> real \<Rightarrow> real \<Rightarrow> real" where
  "transit_arcsin_arg inclination star_radius radius semimajoraxis =
     star_radius * u_R_sun / (semimajoraxis * u_AU)
       * sqrt (transit_radicand inclination star_radius radius semimajoraxis)"

definition transit_formula :: "real \<Rightarrow> real \<Rightarrow> real \<Rightarrow> real \<Rightarrow> real \<Rightarrow> real" where
  "transit_formula inclination star_radius radius period semimajoraxis =
     period * 1440 / pi * arcsin (transit_arcsin_arg inclination star_radius radius semimajoraxis)"

definition in_domain :: "real \<Rightarrow> real \<Rightarrow> real \<Rightarrow> real \<Rightarrow> bool" where
  "in_domain inclination star_radius radius semimajoraxis \<longleftrightarrow>
     star_radius \<noteq> 0 \<and> semimajoraxis \<noteq> 0 \<and> 1 - (cos (inclination * pi / 180))\<^sup>2 \<noteq> 0 \<and>
     0 \<le> transit_radicand inclination star_radius radius semimajoraxis \<and>
     - 1 \<le> transit_arcsin_arg inclination star_radius radius semimajoraxis \<and>
     transit_arcsin_arg inclination star_radius radius semimajoraxis \<le> 1"


subsection \<open>The transit window as the specification words it\<close>

text \<open>
  The window of period index \<open>n\<close>: its midpoint is the reference transit plus \<open>n\<close> periods,
  its ingress and egress lie half a duration before and after. Instants and the period are
  in days, the duration \<open>d\<close> in minutes, so half of it is \<open>d / 2880\<close> days.
\<close>

definition spec_window :: "real \<Rightarrow> real \<Rightarrow> real \<Rightarrow> int \<Rightarrow> times" where
  "spec_window transittime period d n =
     \<lparr> t_ingress = transittime + of_int n * period - d / 2880,
       t_midpoint = transittime + of_int n * period,
       t_egress = transittime + of_int n * period + d / 2880 \<rparr>"

text \<open>
  The time library can compute that window: the reference transit and the three instants lie
  in the range of its calendar. \<open>in_transit\<close> at the instant \<open>t\<close> computes the window of the
  period index of \<open>t\<close> and the one after it.
\<close>

definition window_supported :: "clock \<Rightarrow> real \<Rightarrow> real \<Rightarrow> real \<Rightarrow> int \<Rightarrow> bool" where
  "window_supported ck transittime period d n \<longleftrightarrow>
     supported ck transittime \<and>
     supported ck (transittime + of_int n * period) \<and>
     supported ck (transittime + of_int n * period - d / 2880) \<and>
     supported ck (transittime + of_int n * period + d / 2880)"

definition in_transit_supported :: "clock \<Rightarrow> real \<Rightarrow> real \<Rightarrow> real \<Rightarrow> real \<Rightarrow> bool" where
  "in_transit_supported ck transittime period d t \<longleftrightarrow>
     supported ck t \<and>
     window_supported ck transittime period d \<lfloor>(t - transittime) / period\<rfloor> \<and>
     window_supported ck transittime period d (\<lfloor>(t - transittime) / period\<rfloor> + 1)"

section \<open>Example inputs\<close>

text \<open>
  Concrete catalogue entries and planets at which the theorems below are instantiated.
  \<open>example_parse\<close> reads the handful of number texts the examples use, as \<open>float\<close> would.
\<close>

definition example_parse :: "string \<Rightarrow> real option" where
  "example_parse s =
     (if s = ''1.305'' then Some (1305 / 1000)
      else if s = ''1.30619'' then Some (130619 / 100000)
      else if s = ''1.5'' then Some (3 / 2)
      else None)"

definition example_elements :: "(string \<times> string option) list" where
  "example_elements =
     [(''name'', Some ''TrES-3 b''), (''radius'', Some ''1.305''),
      (''list'', Some ''Confirmed planets''), (''mass'', None),
      (''name'', Some ''GSC 03089-00929 b''), (''period'', Some ''1.30619'')]"


text \<open>
  A planet in the likeness of TrES-3 b, the notebook's example, on an edge-on orbit
  (inclination 90 degrees) around a star of 0.813 solar radii; the same planet on a face-on
  orbit (inclination 0, where \<open>1 - cos\<^sup>2 i\<close> is zero); and the same planet at a thousandth of
  an astronomical unit from its star, where the argument of \<open>arcsin\<close> exceeds 1.
\<close>

definition example_star_dict :: attrs where
  "example_star_dict = [''names'' \<mapsto> PyNames [Some ''TrES-3''], ''radius'' \<mapsto> PyFloat (813 / 1000)]"

definition example_planet :: exoplanet where
  "example_planet =
     \<lparr> dict = [''names'' \<mapsto> PyNames [Some ''TrES-3 b''],
                ''inclination'' \<mapsto> PyFloat 90,
                ''radius'' \<mapsto> PyFloat (1305 / 1000),
                ''period'' \<mapsto> PyFloat (130619 / 100000),
                ''semimajoraxis'' \<mapsto> PyFloat (226 / 10000),
                ''transittime'' \<mapsto> PyFloat (245535886636 / 100000)],
       star = Some example_star_dict,
       transit_duration_cache = None,
       transit_depth_cache = None \<rparr>"

definition face_on_planet :: exoplanet where
  "face_on_planet = example_planet\<lparr> dict := (dict example_planet)(''inclination'' \<mapsto> PyFloat 0) \<rparr>"

definition close_in_planet :: exoplanet where
  "close_in_planet = example_planet\<lparr> dict := (dict example_planet)(''semimajoraxis'' \<mapsto> PyFloat (1 / 1000)) \<rparr>"


text \<open>
  The module-level variable \<open>star\<close> in three states besides unbound: bound to the example
  planet's own star; to another star whose planet has a period of ten days and a reference
  transit five days later; and to a star whose planet has no period in the catalogue.
  \<open>example_minutes\<close> is the transit duration of the example planet, \<open>example_T0\<close> its
  reference transit.
\<close>

definition example_minutes :: real where
  "example_minutes = transit_formula 90 (813 / 1000) (1305 / 1000) (130619 / 100000) (226 / 10000)"

definition example_star :: Star where
  "example_star = \<lparr> star_dict = example_star_dict, planet = example_planet \<rparr>"

definition other_planet :: exoplanet where
  "other_planet =
     \<lparr> dict = [''names'' \<mapsto> PyNames [Some ''Other b''],
                ''period'' \<mapsto> PyFloat 10,
                ''transittime'' \<mapsto> PyFloat (245536386636 / 100000)],
       star = None,
       transit_duration_cache = None,
       transit_depth_cache = None \<rparr>"

definition other_star :: Star where
  "other_star = \<lparr> star_dict = [''names'' \<mapsto> PyNames [Some ''Other'']], planet = other_planet \<rparr>"

definition example_T0 :: real where
  "example_T0 = 245535886636 / 100000"

definition periodless_star :: Star where
  "periodless_star =
     \<lparr> star_dict = [''names'' \<mapsto> PyNames [Some ''Imaged'']],
       planet = \<lparr> dict = [''names'' \<mapsto> PyNames [Some ''Imaged b''],
                          ''transittime'' \<mapsto> PyFloat (245536386636 / 100000)],
                  star = None, transit_duration_cache = None, transit_depth_cache = None \<rparr> \<rparr>"







text \<open>
  A clock for the examples. A Julian date denotes itself (the examples stay within days of
  June 2010, where no leap second falls, so the constant offset between the scales drops out
  of every difference). The clock covers the Julian dates from 0 to 5 000 000, a part of what
  astropy covers. Its text of an instant is the instant rounded to the nearest millisecond,
  as \<open>isot\<close> rounds it, and written as the count of milliseconds since Julian date 0 in
  decimal digits where \<open>isot\<close> writes the calendar date and the time of day; the clock parses
  such a count back to its instant and rejects every other text.
\<close>

definition digit :: "nat \<Rightarrow> char" where
  "digit k = ''0123456789'' ! k"

fun decimal :: "nat \<Rightarrow> string" where
  "decimal n = (if n < 10 then [digit n] else decimal (n div 10) @ [digit (n mod 10)])"

declare decimal.simps [simp del]

definition undecimal :: "string \<Rightarrow> nat" where
  "undecimal s = foldl (\<lambda>a c. 10 * a + (of_char c - 48)) 0 s"

definition is_decimal :: "string \<Rightarrow> bool" where
  "is_decimal s \<longleftrightarrow> s \<noteq> [] \<and> list_all (\<lambda>c. c \<in> set ''0123456789'') s"

definition ms_count :: "real \<Rightarrow> nat" where
  "ms_count x = nat \<lfloor>x * 86400000 + 1 / 2\<rfloor>"

definition ms_clock :: clock where
  "ms_clock =
     \<lparr> from_jd = (\<lambda>x. x),
       parse_time = (\<lambda>s. if is_decimal s then Some (real (undecimal s) / 86400000) else None),
       supported = (\<lambda>x. 0 \<le> x \<and> x \<le> 5000000),
       isot = (\<lambda>x. decimal (ms_count x)) \<rparr>"

text \<open>
  The instants that the midpoint texts of a returned list stand for: each text read back as
  \<open>in_transit\<close> reads a text.
\<close>

definition returned_midpoints ::
  "clock \<Rightarrow> ((error + transit list) \<times> exoplanet) option \<Rightarrow> (error + real option list) option" where
  "returned_midpoints ck r =
     map_option (\<lambda>y. map_sum id (map (\<lambda>w. parse_time ck (midpoint w))) (fst y)) r"
section \<open>Verification\<close>

subsection \<open>The property bag\<close>

lemma setattr_storable: "storable c tag \<Longrightarrow> setattr c d tag v = Inr (d(tag \<mapsto> v))"
  by (simp add: setattr_def storable_def)

lemma dict_of_names: "dict_of b ''names'' = Some (PyNames (aliases b))"
  by (simp add: dict_of_def)

lemma dict_of_alias: "(dict_of b)(''names'' \<mapsto> PyNames ns) = dict_of (b\<lparr> aliases := ns \<rparr>)"
  by (simp add: dict_of_def)

lemma dict_of_field:
  "tag \<noteq> ''names'' \<Longrightarrow>
   (dict_of b)(tag \<mapsto> v) = dict_of (b\<lparr> field_map := (field_map b)(tag \<mapsto> v) \<rparr>)"
  by (simp add: dict_of_def fun_upd_twist)

lemma build_properties_refines:
  "well_tagged c es \<Longrightarrow>
   build_properties parse c es (dict_of b) = Inr (dict_of (spec_build parse es b))"
proof (induction es arbitrary: b)
  case Nil
  show ?case by simp
next
  case (Cons e es)
  obtain tag tx where e: "e = (tag, tx)" by (cases e)
  from Cons.prems e have wt: "well_tagged c es"
    and ok: "tag = ''name'' \<or> tx = None \<or> storable c tag" by simp_all
  show ?case
  proof (cases "tag = ''name''")
    case True
    then show ?thesis
      using Cons.IH [OF wt] e by (simp add: dict_of_names dict_of_alias)
  next
    case False
    show ?thesis
    proof (cases tx)
      case None
      then show ?thesis using Cons.IH [OF wt] e False by simp
    next
      case (Some s)
      with ok False have st: "storable c tag" by simp
      then have nn: "tag \<noteq> ''names''" by (simp add: storable_def)
      show ?thesis
        using Cons.IH [OF wt] e False Some
        by (cases "parse s") (simp_all add: setattr_storable [OF st] dict_of_field [OF nn])
    qed
  qed
qed

lemma name_dict_of: "name (dict_of b) = spec_name b"
  by (cases "aliases b") (simp_all add: name_def spec_name_def dict_of_def)

lemma dict_of_empty: "dict_of empty_bag = OEC_init"
  by (simp add: dict_of_def empty_bag_def OEC_init_def)

text \<open>
  Claim C9, as stated: for every sequence of (tag, text) pairs, building a record follows the
  contract of the property bag, and afterwards \<open>name\<close> fails with the empty-alias error exactly
  when no alias was recorded. It fails for the single element \<open>names\<close> with text \<open>abc\<close>: no
  \<open>name\<close> element was seen, the specification's bag has no alias and its \<open>name\<close> fails, yet the
  record's \<open>name\<close> returns \<open>a\<close>, the first character of the text that replaced the alias list.
\<close>

theorem C9_names_tag_counterexample:
  "build_then_name (\<lambda>s. None) OEC_cls [(''names'', Some ''abc'')] = Inr (Some ''a'') \<and>
   spec_name (spec_build (\<lambda>s. None) [(''names'', Some ''abc'')] empty_bag) = Inl IndexError"
  by (simp add: build_then_name_def setattr_def OEC_init_def name_def spec_name_def empty_bag_def)

text \<open>
  Claim C9, amended: for every sequence of (tag, text) pairs in which each element with a text
  is a \<open>name\<close> or carries a tag that \<open>setattr\<close> stores as a plain field (not \<open>names\<close>, not a
  read-only property of the class, not \<open>__class__\<close>, \<open>__dict__\<close> or \<open>__weakref__\<close>), building a
  fresh record never fails and yields the bag of the specification: each \<open>name\<close> text appended
  to the aliases, each other text stored under its tag as the parsed float, or as the text
  itself when it does not parse, elements without text skipped; and \<open>name\<close> then returns the
  first alias, failing with IndexError exactly when there is none.
\<close>

theorem C9_build_properties_bag:
  "well_tagged c es \<Longrightarrow>
   build_properties parse c es OEC_init = Inr (dict_of (spec_build parse es empty_bag)) \<and>
   build_then_name parse c es = spec_name (spec_build parse es empty_bag)"
  using build_properties_refines [of c es parse empty_bag]
  by (simp add: dict_of_empty build_then_name_def name_dict_of)

theorem C9_build_properties_bag_witness:
  "well_tagged Exoplanet_cls example_elements \<and>
   build_then_name example_parse Exoplanet_cls example_elements = Inr (Some ''TrES-3 b'') \<and>
   aliases (spec_build example_parse example_elements empty_bag)
     = [Some ''TrES-3 b'', Some ''GSC 03089-00929 b''] \<and>
   field_map (spec_build example_parse example_elements empty_bag) ''radius''
     = Some (PyFloat (1305 / 1000)) \<and>
   field_map (spec_build example_parse example_elements empty_bag) ''list''
     = Some (PyStr ''Confirmed planets'') \<and>
   field_map (spec_build example_parse example_elements empty_bag) ''mass'' = None"
proof -
  have h: "well_tagged Exoplanet_cls example_elements"
    by (simp add: example_elements_def storable_def)
  show ?thesis
    using h C9_build_properties_bag [OF h, of example_parse]
    by (simp add: example_elements_def example_parse_def empty_bag_def spec_name_def)
qed

subsection \<open>Arithmetic of floats and units\<close>

lemma signed_inf_scale: "0 < c \<Longrightarrow> signed_inf (x * c) = signed_inf x"
  by (simp add: signed_inf_def zero_less_mult_iff)

lemma np_mul_signed_inf_pos: "0 < c \<Longrightarrow> np_mul (signed_inf x) (Fin c) = signed_inf x"
  by (simp add: signed_inf_def)

lemma np_div_scale:
  "0 < c \<Longrightarrow> 0 < k \<Longrightarrow>
   np_mul (np_div (Fin x) (Fin y)) (Fin (c / k)) = np_div (Fin (x * c)) (Fin (y * k))"
  by (simp add: np_mul_signed_inf_pos signed_inf_scale)

lemma np_mul_scale_left:
  "0 < c \<Longrightarrow> np_mul (np_mul a (Fin c)) b = np_mul (np_mul a b) (Fin c)"
  by (cases a; cases b) (auto simp: signed_inf_def zero_less_mult_iff mult_less_0_iff)

lemma np_pow2_scale:
  "0 < c \<Longrightarrow> np_mul (np_pow2 a) (Fin (c * c)) = np_pow2 (np_mul a (Fin c))"
  by (cases a) (auto simp: np_pow2_def signed_inf_def zero_less_mult_iff mult_less_0_iff)

lemma unit_pos: "0 < u_R_sun" "0 < u_R_jup" "0 < u_AU"
  by (simp_all add: u_R_sun_def u_R_jup_def u_AU_def)

lemma np_mul_one: "np_mul a (Fin 1) = a"
  by (cases a) (simp_all add: signed_inf_def)

lemma compute_is_spec:
  "compute_transit_duration i rs rp per a = spec_transit_duration i rs rp per a"
proof -
  have r1: "np_mul (np_div (Fin rp) (Fin rs)) (Fin (u_R_jup / u_R_sun))
            = np_div (Fin (rp * u_R_jup)) (Fin (rs * u_R_sun))"
    by (rule np_div_scale) (rule unit_pos)+
  have r2: "np_div (Fin (a * u_AU)) (Fin (rs * u_R_sun))
            = np_mul (np_div (Fin a) (Fin rs)) (Fin (u_AU / u_R_sun))"
    by (rule np_div_scale [symmetric]) (rule unit_pos)+
  have r3: "np_div (Fin (rs * u_R_sun)) (Fin (a * u_AU))
            = np_mul (np_div (Fin rs) (Fin a)) (Fin (u_R_sun / u_AU))"
    by (rule np_div_scale [symmetric]) (rule unit_pos)+
  have c1: "0 < u_AU / u_R_sun" and c2: "0 < u_R_sun / u_AU"
    using unit_pos by simp_all
  have sq: "np_mul (np_pow2 (np_mul (np_div (Fin a) (Fin rs)) (Fin (cos (i * u_degree)))))
              (Fin (u_AU / u_R_sun * (u_AU / u_R_sun)))
            = np_pow2 (np_mul (np_div (Fin (a * u_AU)) (Fin (rs * u_R_sun))) (Fin (cos (i * u_degree))))"
    unfolding r2 np_pow2_scale [OF c1] np_mul_scale_left [OF c1] ..
  have co: "cos (i * u_degree) * cos (i * u_degree) = (cos (i * pi / 180))\<^sup>2"
    by (simp add: u_degree_def power2_eq_square)
  have co': "cos (i * u_degree) = cos (i * pi / 180)"
    by (simp add: u_degree_def)
  have fin: "\<And>y. np_mul (np_mul (Fin (per / pi)) (np_arcsin y)) (Fin (u_day / u_minute))
                  = np_mul (Fin (per * 1440 / pi)) (np_arcsin y)"
    subgoal for y by (cases y) (simp_all add: u_day_def u_minute_def)
    done
  have pi_div: "np_div (Fin per) (Fin pi) = Fin (per / pi)"
    by simp
  note np_div.simps(1) [simp del]
  have sq': "np_mul (np_mul (np_mul (np_div (Fin a) (Fin rs)) (Fin (cos (i * pi / 180))))
                            (np_mul (np_div (Fin a) (Fin rs)) (Fin (cos (i * pi / 180)))))
                    (Fin (u_AU * u_AU / (u_R_sun * u_R_sun)))
             = np_mul (np_mul (np_div (Fin (a * u_AU)) (Fin (rs * u_R_sun))) (Fin (cos (i * pi / 180))))
                      (np_mul (np_div (Fin (a * u_AU)) (Fin (rs * u_R_sun))) (Fin (cos (i * pi / 180))))"
    using sq by (simp add: co' np_pow2_def)
  show ?thesis
    unfolding compute_transit_duration_def spec_transit_duration_def Let_def
      as_quantity_def q_to_def q_mul_def q_div_def q_pow2_def q_sub_def scalar_add_def
      scalar_sub_def q_div_scalar_def q_mul_scalar_def q_cos_def q_sqrt_def q_arcsin_def
      fst_conv snd_conv
    apply (simp only: div_by_1 np_mul_one mult_1_right r1 pi_div real_sqrt_one)
    apply (simp only: r3 np_mul_scale_left [OF c2] fin)
    apply (simp add: co' np_pow2_def np_sub_def power2_eq_square sq')
    done
qed


lemma np_mul_NaN [simp]: "np_mul a NaN = NaN"
  by (cases a) simp_all

lemma np_add_NaN [simp]: "np_add a NaN = NaN"
  by (cases a) simp_all

lemma np_div_NaN [simp]: "np_div a NaN = NaN"
  by (cases a) simp_all

lemma np_arcsin_not_Fin: "\<forall>x. b \<noteq> Fin x \<Longrightarrow> np_arcsin b = NaN"
  by (cases b) simp_all

lemma spec_in_domain:
  assumes "in_domain i rs rp a"
  shows "spec_transit_duration i rs rp per a = Fin (transit_formula i rs rp per a)"
proof -
  from assms have nz: "rs \<noteq> 0" "a \<noteq> 0" "1 - (cos (i * pi / 180))\<^sup>2 \<noteq> 0"
    and rad: "0 \<le> transit_radicand i rs rp a"
    and arg: "- 1 \<le> transit_arcsin_arg i rs rp a" "transit_arcsin_arg i rs rp a \<le> 1"
    by (simp_all add: in_domain_def)
  have u: "rs * u_R_sun \<noteq> 0" "a * u_AU \<noteq> 0"
    using nz unit_pos by simp_all
  have inner: "np_div
                 (np_sub (np_pow2 (np_add (Fin 1) (np_div (Fin (rp * u_R_jup)) (Fin (rs * u_R_sun)))))
                         (np_pow2 (np_mul (np_div (Fin (a * u_AU)) (Fin (rs * u_R_sun))) (Fin (cos (i * pi / 180))))))
                 (Fin (1 - (cos (i * pi / 180))\<^sup>2))
               = Fin (transit_radicand i rs rp a)"
    using u nz(3) by (simp add: np_pow2_def np_sub_def transit_radicand_def power2_eq_square)
  have "np_mul (np_div (Fin (rs * u_R_sun)) (Fin (a * u_AU))) (np_sqrt (Fin (transit_radicand i rs rp a)))
        = Fin (transit_arcsin_arg i rs rp a)"
    using u rad by (simp add: transit_arcsin_arg_def)
  then show ?thesis
    unfolding spec_transit_duration_def Let_def inner
    using arg by (simp add: transit_formula_def)
qed


lemma np_mul_inf_not_Fin: "np_mul PInf b \<noteq> Fin x" "np_mul MInf b \<noteq> Fin x"
  by (cases b; simp add: signed_inf_def)+

lemma np_pow2_signed_inf_add: "np_pow2 (np_add (Fin x) (signed_inf p)) = (if p = 0 then NaN else PInf)"
  by (simp add: signed_inf_def np_pow2_def)

lemma np_pow2_signed_inf_mul: "np_pow2 (np_mul (signed_inf q) (Fin c)) = (if q = 0 \<or> c = 0 then NaN else PInf)"
  by (simp add: signed_inf_def np_pow2_def)

lemma spec_out_of_domain:
  assumes "\<not> in_domain i rs rp a"
  shows "spec_transit_duration i rs rp per a = NaN"
proof -
  let ?c = "cos (i * pi / 180)"
  let ?N = "np_sub (np_pow2 (np_add (Fin 1) (np_div (Fin (rp * u_R_jup)) (Fin (rs * u_R_sun)))))
                   (np_pow2 (np_mul (np_div (Fin (a * u_AU)) (Fin (rs * u_R_sun))) (Fin ?c)))"
  let ?X = "np_mul (np_div (Fin (rs * u_R_sun)) (Fin (a * u_AU)))
              (np_sqrt (np_div ?N (Fin (1 - ?c\<^sup>2))))"
  have goal: "spec_transit_duration i rs rp per a = np_mul (Fin (per * 1440 / pi)) (np_arcsin ?X)"
    by (simp add: spec_transit_duration_def Let_def)
  have "np_arcsin ?X = NaN"
  proof (cases "rs = 0")
    case True
    then have "?N = NaN"
      by (simp add: np_pow2_signed_inf_add np_pow2_signed_inf_mul np_sub_def)
    then show ?thesis by simp
  next
    case rs: False
    then have urs: "rs * u_R_sun \<noteq> 0" using unit_pos by simp
    show ?thesis
    proof (cases "a = 0")
      case True
      then have "np_div (Fin (rs * u_R_sun)) (Fin (a * u_AU)) = PInf
               \<or> np_div (Fin (rs * u_R_sun)) (Fin (a * u_AU)) = MInf"
        using urs by (simp add: signed_inf_def)
      then have "\<forall>x. ?X \<noteq> Fin x"
        using np_mul_inf_not_Fin by metis
      then show ?thesis by (rule np_arcsin_not_Fin)
    next
      case a: False
      then have ua: "a * u_AU \<noteq> 0" using unit_pos by simp
      have N: "?N = Fin ((1 + rp * u_R_jup / (rs * u_R_sun))\<^sup>2
                    - (a * u_AU / (rs * u_R_sun) * ?c)\<^sup>2)"
        using urs by (simp add: np_pow2_def np_sub_def power2_eq_square)
      show ?thesis
      proof (cases "1 - ?c\<^sup>2 = 0")
        case True
        have "np_sqrt (np_div ?N (Fin (1 - ?c\<^sup>2))) = PInf \<or> np_sqrt (np_div ?N (Fin (1 - ?c\<^sup>2))) = NaN"
          unfolding N True by (simp add: signed_inf_def)
        then have "\<forall>x. ?X \<noteq> Fin x"
          using urs ua by (auto simp: signed_inf_def split: if_splits)
        then show ?thesis by (rule np_arcsin_not_Fin)
      next
        case den: False
        have E: "np_div ?N (Fin (1 - ?c\<^sup>2)) = Fin (transit_radicand i rs rp a)"
          unfolding N using den by (simp add: transit_radicand_def)
        show ?thesis
        proof (cases "0 \<le> transit_radicand i rs rp a")
          case False
          then show ?thesis unfolding E by simp
        next
          case True
          then have X: "?X = Fin (transit_arcsin_arg i rs rp a)"
            unfolding E using ua by (simp add: transit_arcsin_arg_def)
          from assms rs a den True
          have "\<not> (- 1 \<le> transit_arcsin_arg i rs rp a \<and> transit_arcsin_arg i rs rp a \<le> 1)"
            by (simp add: in_domain_def)
          then show ?thesis unfolding X by auto
        qed
      qed
    qed
  qed
  then show ?thesis unfolding goal by simp
qed

lemma spec_transit_duration_cases:
  "spec_transit_duration i rs rp per a =
     (if in_domain i rs rp a then Fin (transit_formula i rs rp per a) else NaN)"
  by (simp add: spec_in_domain spec_out_of_domain)

subsection \<open>The derived properties: duration and depth\<close>

lemma transit_duration_valid:
  "caches_valid self \<Longrightarrow> fst (transit_duration self) = transit_duration_uncached self"
  by (auto simp: caches_valid_def transit_duration_def split: option.splits sum.splits)

lemma transit_depth_valid:
  "caches_valid self \<Longrightarrow> fst (transit_depth self) = transit_depth_uncached self"
  by (auto simp: caches_valid_def transit_depth_def split: option.splits sum.splits)

lemma transit_duration_keeps_valid:
  "caches_valid s \<Longrightarrow> caches_valid (snd (transit_duration s))"
  by (auto simp: caches_valid_def transit_duration_def transit_duration_uncached_def
        transit_depth_uncached_def split: option.splits sum.splits)

lemma transit_depth_keeps_valid:
  "caches_valid s \<Longrightarrow> caches_valid (snd (transit_depth s))"
  by (auto simp: caches_valid_def transit_depth_def transit_duration_uncached_def
        transit_depth_uncached_def split: option.splits sum.splits)

lemma Exoplanet_init_valid:
  "Exoplanet_init parse element parent = Inr s \<Longrightarrow> caches_valid s"
  by (auto simp: Exoplanet_init_def caches_valid_def split: sum.splits)

lemma transit_duration_uncached_fields:
  assumes "dict self ''inclination'' = Some (PyFloat i)"
    and "star self = Some sd" and "sd ''radius'' = Some (PyFloat rs)"
    and "dict self ''radius'' = Some (PyFloat rp)"
    and "dict self ''period'' = Some (PyFloat per)"
    and "dict self ''semimajoraxis'' = Some (PyFloat a)"
  shows "transit_duration_uncached self = Inr (spec_transit_duration i rs rp per a)"
  using assms
  by (simp add: transit_duration_uncached_def bind_err_def getattr_float_def compute_is_spec)

text \<open>
  Claim C2: for every planet whose inclination, period, semi-major axis and radius and whose
  star's radius are set (and whose caches hold nothing but computed values, as after the
  constructor), \<open>transit_duration\<close> returns the number of minutes the specification's formula
  gives with the three lengths converted to metres before any ratio and the inclination in
  radians. Where the formula is defined that is the real number \<open>transit_formula\<close>; elsewhere
  it is NaN.
\<close>

theorem C2_transit_duration_formula:
  assumes "caches_valid self"
    and "dict self ''inclination'' = Some (PyFloat i)"
    and "star self = Some sd" and "sd ''radius'' = Some (PyFloat rs)"
    and "dict self ''radius'' = Some (PyFloat rp)"
    and "dict self ''period'' = Some (PyFloat per)"
    and "dict self ''semimajoraxis'' = Some (PyFloat a)"
  shows "fst (transit_duration self) = Inr (spec_transit_duration i rs rp per a) \<and>
         spec_transit_duration i rs rp per a
           = (if in_domain i rs rp a then Fin (transit_formula i rs rp per a) else NaN)"
  using transit_duration_valid [OF assms(1)] transit_duration_uncached_fields [OF assms(2-7)]
    spec_transit_duration_cases [of i rs rp per a]
  by simp

lemma example_planet_valid: "caches_valid example_planet"
  by (simp add: caches_valid_def example_planet_def)

lemma cos_right_angle: "cos (90 * pi / 180) = 0"
proof -
  have "90 * pi / 180 = pi / 2" by simp
  then show ?thesis by (simp only: cos_pi_half)
qed

lemma example_in_domain: "in_domain 90 (813 / 1000) (1305 / 1000) (226 / 10000)"
  apply (simp add: in_domain_def transit_arcsin_arg_def transit_radicand_def cos_right_angle
       u_R_sun_def u_R_jup_def u_AU_def)
  done

theorem C2_transit_duration_formula_witness:
  "caches_valid example_planet \<and>
   dict example_planet ''inclination'' = Some (PyFloat 90) \<and>
   star example_planet = Some example_star_dict \<and>
   example_star_dict ''radius'' = Some (PyFloat (813 / 1000)) \<and>
   dict example_planet ''radius'' = Some (PyFloat (1305 / 1000)) \<and>
   dict example_planet ''period'' = Some (PyFloat (130619 / 100000)) \<and>
   dict example_planet ''semimajoraxis'' = Some (PyFloat (226 / 10000)) \<and>
   in_domain 90 (813 / 1000) (1305 / 1000) (226 / 10000) \<and>
   fst (transit_duration example_planet)
     = Inr (Fin (transit_formula 90 (813 / 1000) (1305 / 1000) (130619 / 100000) (226 / 10000)))"
proof -
  have f: "dict example_planet ''inclination'' = Some (PyFloat 90)"
    "star example_planet = Some example_star_dict"
    "example_star_dict ''radius'' = Some (PyFloat (813 / 1000))"
    "dict example_planet ''radius'' = Some (PyFloat (1305 / 1000))"
    "dict example_planet ''period'' = Some (PyFloat (130619 / 100000))"
    "dict example_planet ''semimajoraxis'' = Some (PyFloat (226 / 10000))"
    by (simp_all add: example_planet_def example_star_dict_def)
  show ?thesis
    using C2_transit_duration_formula [OF example_planet_valid f] f example_planet_valid
      example_in_domain
    by simp
qed


lemma out_of_domain_NaN:
  assumes "caches_valid self"
    and "dict self ''inclination'' = Some (PyFloat i)"
    and "star self = Some sd" and "sd ''radius'' = Some (PyFloat rs)"
    and "dict self ''radius'' = Some (PyFloat rp)"
    and "dict self ''period'' = Some (PyFloat per)"
    and "dict self ''semimajoraxis'' = Some (PyFloat a)"
    and "\<not> in_domain i rs rp a"
  shows "fst (transit_duration self) = Inr NaN"
  using transit_duration_valid [OF assms(1)] transit_duration_uncached_fields [OF assms(2-7)]
    spec_out_of_domain [OF assms(8), of per]
  by simp

lemma face_on_planet_valid: "caches_valid face_on_planet"
  by (simp add: caches_valid_def face_on_planet_def example_planet_def)

lemma close_in_planet_valid: "caches_valid close_in_planet"
  by (simp add: caches_valid_def close_in_planet_def example_planet_def)

lemma close_in_arg: "1 < transit_arcsin_arg 90 (813 / 1000) (1305 / 1000) (1 / 1000)"
  by (simp add: transit_arcsin_arg_def transit_radicand_def cos_right_angle
       u_R_sun_def u_R_jup_def u_AU_def)

text \<open>
  Claim C5, as stated: when the denominator \<open>1 - cos\<^sup>2 i\<close> is zero or the argument of \<open>arcsin\<close>
  lies outside \<open>[-1, 1]\<close>, \<open>transit_duration\<close> fails with a numeric-domain error. It does not:
  the method has no check and numpy raises nothing. On the face-on planet the denominator
  is zero, on the close-in planet the argument exceeds 1, and both calls return NaN.
\<close>

theorem C5_no_numeric_domain_error_counterexample:
  "1 - (cos (0 * pi / 180))\<^sup>2 = 0 \<and>
   fst (transit_duration face_on_planet) = Inr NaN \<and>
   1 < transit_arcsin_arg 90 (813 / 1000) (1305 / 1000) (1 / 1000) \<and>
   fst (transit_duration close_in_planet) = Inr NaN"
proof -
  have n1: "\<not> in_domain 0 (813 / 1000) (1305 / 1000) (226 / 10000)"
    by (simp add: in_domain_def)
  have n2: "\<not> in_domain 90 (813 / 1000) (1305 / 1000) (1 / 1000)"
    using close_in_arg by (simp add: in_domain_def)
  have f1: "dict face_on_planet ''inclination'' = Some (PyFloat 0)"
    "star face_on_planet = Some example_star_dict"
    "example_star_dict ''radius'' = Some (PyFloat (813 / 1000))"
    "dict face_on_planet ''radius'' = Some (PyFloat (1305 / 1000))"
    "dict face_on_planet ''period'' = Some (PyFloat (130619 / 100000))"
    "dict face_on_planet ''semimajoraxis'' = Some (PyFloat (226 / 10000))"
    by (simp_all add: face_on_planet_def example_planet_def example_star_dict_def)
  have f2: "dict close_in_planet ''inclination'' = Some (PyFloat 90)"
    "star close_in_planet = Some example_star_dict"
    "example_star_dict ''radius'' = Some (PyFloat (813 / 1000))"
    "dict close_in_planet ''radius'' = Some (PyFloat (1305 / 1000))"
    "dict close_in_planet ''period'' = Some (PyFloat (130619 / 100000))"
    "dict close_in_planet ''semimajoraxis'' = Some (PyFloat (1 / 1000))"
    by (simp_all add: close_in_planet_def example_planet_def example_star_dict_def)
  have "fst (transit_duration face_on_planet) = Inr NaN"
    by (rule out_of_domain_NaN [OF face_on_planet_valid f1 n1])
  moreover have "fst (transit_duration close_in_planet) = Inr NaN"
    by (rule out_of_domain_NaN [OF close_in_planet_valid f2 n2])
  ultimately show ?thesis using close_in_arg by simp
qed

text \<open>
  Claim C5, amended: for every planet whose five fields are set, if the denominator
  \<open>1 - cos\<^sup>2 i\<close> is zero or the argument of \<open>arcsin\<close> lies outside \<open>[-1, 1]\<close>, then
  \<open>transit_duration\<close> raises no error and returns NaN.
\<close>

theorem C5_out_of_domain_returns_NaN:
  assumes "caches_valid self"
    and "dict self ''inclination'' = Some (PyFloat i)"
    and "star self = Some sd" and "sd ''radius'' = Some (PyFloat rs)"
    and "dict self ''radius'' = Some (PyFloat rp)"
    and "dict self ''period'' = Some (PyFloat per)"
    and "dict self ''semimajoraxis'' = Some (PyFloat a)"
    and "1 - (cos (i * pi / 180))\<^sup>2 = 0 \<or> transit_arcsin_arg i rs rp a < - 1
         \<or> 1 < transit_arcsin_arg i rs rp a"
  shows "fst (transit_duration self) = Inr NaN"
proof -
  from assms(8) have "\<not> in_domain i rs rp a"
    by (auto simp: in_domain_def)
  then show ?thesis
    by (rule out_of_domain_NaN [OF assms(1-7)])
qed

theorem C5_out_of_domain_returns_NaN_witness:
  "caches_valid face_on_planet \<and>
   dict face_on_planet ''inclination'' = Some (PyFloat 0) \<and>
   star face_on_planet = Some example_star_dict \<and>
   example_star_dict ''radius'' = Some (PyFloat (813 / 1000)) \<and>
   dict face_on_planet ''radius'' = Some (PyFloat (1305 / 1000)) \<and>
   dict face_on_planet ''period'' = Some (PyFloat (130619 / 100000)) \<and>
   dict face_on_planet ''semimajoraxis'' = Some (PyFloat (226 / 10000)) \<and>
   1 - (cos (0 * pi / 180))\<^sup>2 = 0 \<and>
   fst (transit_duration face_on_planet) = Inr NaN"
proof -
  have f: "dict face_on_planet ''inclination'' = Some (PyFloat 0)"
    "star face_on_planet = Some example_star_dict"
    "example_star_dict ''radius'' = Some (PyFloat (813 / 1000))"
    "dict face_on_planet ''radius'' = Some (PyFloat (1305 / 1000))"
    "dict face_on_planet ''period'' = Some (PyFloat (130619 / 100000))"
    "dict face_on_planet ''semimajoraxis'' = Some (PyFloat (226 / 10000))"
    by (simp_all add: face_on_planet_def example_planet_def example_star_dict_def)
  have z: "1 - (cos (0 * pi / 180))\<^sup>2 = 0 \<or>
           transit_arcsin_arg 0 (813 / 1000) (1305 / 1000) (226 / 10000) < - 1 \<or>
           1 < transit_arcsin_arg 0 (813 / 1000) (1305 / 1000) (226 / 10000)"
    by simp
  show ?thesis
    using C5_out_of_domain_returns_NaN [OF face_on_planet_valid f z] f face_on_planet_valid
    by simp
qed

lemma transit_depth_uncached_fields:
  assumes "star self = Some sd" and "sd ''radius'' = Some (PyFloat rs)"
    and "dict self ''radius'' = Some (PyFloat rp)"
  shows "transit_depth_uncached self = Inr (compute_transit_depth rs rp)"
  using assms by (simp add: transit_depth_uncached_def bind_err_def getattr_float_def)

lemma compute_transit_depth_nonzero:
  "rs \<noteq> 0 \<Longrightarrow>
   compute_transit_depth rs rp = (Fin ((rp * u_R_jup / (rs * u_R_sun))\<^sup>2), 1)"
  using unit_pos
  by (simp add: compute_transit_depth_def Let_def q_to_def q_div_def q_pow2_def as_quantity_def
        np_pow2_def u_m_def power2_eq_square)

text \<open>
  Claim C8: for every planet and parent star with radii \<open>R_planet > 0\<close> and \<open>R_star > 0\<close>,
  \<open>transit_depth\<close> returns \<open>(R_planet / R_star)\<^sup>2\<close>, a pure number, with both radii in metres;
  and when the planet is smaller than the star the value lies strictly between 0 and 1.
\<close>

theorem C8_transit_depth:
  assumes "caches_valid self"
    and "star self = Some sd" and "sd ''radius'' = Some (PyFloat rs)"
    and "dict self ''radius'' = Some (PyFloat rp)"
    and "0 < rp" and "0 < rs"
  shows "fst (transit_depth self) = Inr (Fin ((rp * u_R_jup / (rs * u_R_sun))\<^sup>2), 1) \<and>
         (rp * u_R_jup < rs * u_R_sun \<longrightarrow>
            0 < (rp * u_R_jup / (rs * u_R_sun))\<^sup>2 \<and> (rp * u_R_jup / (rs * u_R_sun))\<^sup>2 < 1)"
proof -
  have pos: "0 < rp * u_R_jup" "0 < rs * u_R_sun"
    using assms(5,6) unit_pos by simp_all
  have "fst (transit_depth self) = Inr (Fin ((rp * u_R_jup / (rs * u_R_sun))\<^sup>2), 1)"
    using transit_depth_valid [OF assms(1)] transit_depth_uncached_fields [OF assms(2-4)]
      compute_transit_depth_nonzero [of rs rp] assms(6)
    by simp
  moreover have "0 < (rp * u_R_jup / (rs * u_R_sun))\<^sup>2"
    using divide_pos_pos [OF pos] by (rule zero_less_power)
  moreover have "(rp * u_R_jup / (rs * u_R_sun))\<^sup>2 < 1"
    if "rp * u_R_jup < rs * u_R_sun"
  proof -
    have "0 \<le> rp * u_R_jup / (rs * u_R_sun)"
      using divide_pos_pos [OF pos] by (rule less_imp_le)
    moreover have "rp * u_R_jup / (rs * u_R_sun) < 1"
      using pos(2) that by (simp add: divide_less_eq)
    ultimately
    show ?thesis
      by (simp add: abs_square_less_1)
  qed
  ultimately show ?thesis by blast
qed

theorem C8_transit_depth_witness:
  "caches_valid example_planet \<and>
   star example_planet = Some example_star_dict \<and>
   example_star_dict ''radius'' = Some (PyFloat (813 / 1000)) \<and>
   dict example_planet ''radius'' = Some (PyFloat (1305 / 1000)) \<and>
   (0::real) < 1305 / 1000 \<and> (0::real) < 813 / 1000 \<and>
   1305 / 1000 * u_R_jup < 813 / 1000 * u_R_sun \<and>
   fst (transit_depth example_planet)
     = Inr (Fin ((1305 / 1000 * u_R_jup / (813 / 1000 * u_R_sun))\<^sup>2), 1) \<and>
   0 < (1305 / 1000 * u_R_jup / (813 / 1000 * u_R_sun))\<^sup>2 \<and>
   (1305 / 1000 * u_R_jup / (813 / 1000 * u_R_sun))\<^sup>2 < 1"
proof -
  have f: "star example_planet = Some example_star_dict"
    "example_star_dict ''radius'' = Some (PyFloat (813 / 1000))"
    "dict example_planet ''radius'' = Some (PyFloat (1305 / 1000))"
    by (simp_all add: example_planet_def example_star_dict_def)
  have p: "(0::real) < 1305 / 1000" "(0::real) < 813 / 1000" by simp_all
  have lt: "1305 / 1000 * u_R_jup < 813 / 1000 * u_R_sun"
    by (simp add: u_R_jup_def u_R_sun_def)
  show ?thesis
    using C8_transit_depth [OF example_planet_valid f p] f example_planet_valid lt
    by simp
qed

subsection \<open>Windows and the two methods\<close>

lemma half_duration_Fin: "half_duration (Fin d) = Fin (d / 2880)"
  by (simp add: half_duration_def q_to_def q_div_scalar_def u_minute_def u_day_def)

lemma transit_duration_again:
  "fst (transit_duration s) = Inr v \<Longrightarrow>
   transit_duration (snd (transit_duration s)) = (Inr v, snd (transit_duration s))"
  by (auto simp: transit_duration_def split: option.splits sum.splits)

lemma duration_after:
  "fst (transit_duration s) = Inr v \<Longrightarrow> fst (transit_duration (snd (transit_duration s))) = Inr v"
  using transit_duration_again [of s v] by simp

text \<open>
  With a finite duration the window is the specification's when the library can compute it,
  and ErfaError otherwise.
\<close>

lemma window_finite:
  assumes "fst (transit_duration s) = Inr (Fin d)" and "window_supported ck T0 P d n"
  shows "window ck T0 P s n = (Inr (spec_window T0 P d n), snd (transit_duration s))"
proof -
  obtain s1 where 1: "transit_duration s = (Inr (Fin d), s1)"
    using assms(1) by (cases "transit_duration s") simp
  have 2: "transit_duration s1 = (Inr (Fin d), s1)"
    using transit_duration_again [OF assms(1)] 1 by simp
  show ?thesis
    using assms(2)
    by (simp add: window_def 1 2 spec_window_def half_duration_Fin time_add_def time_shift_def
          window_supported_def)
qed

lemma window_unsupported:
  assumes "fst (transit_duration s) = Inr (Fin d)" and "\<not> window_supported ck T0 P d n"
  shows "fst (window ck T0 P s n) = Inl ErfaError"
proof -
  obtain s1 where 1: "transit_duration s = (Inr (Fin d), s1)"
    using assms(1) by (cases "transit_duration s") simp
  have 2: "transit_duration s1 = (Inr (Fin d), s1)"
    using transit_duration_again [OF assms(1)] 1 by simp
  show ?thesis
    using assms(2)
    by (auto simp: window_def 1 2 half_duration_Fin time_add_def time_shift_def
          window_supported_def)
qed

lemma window_not_finite:
  assumes "fst (transit_duration s) = Inr v" and "\<forall>d. v \<noteq> Fin d"
    and "supported ck T0" and "supported ck (T0 + of_int n * P)"
  shows "fst (window ck T0 P s n) = Inl TypeError"
proof -
  obtain s1 where 1: "transit_duration s = (Inr v, s1)"
    using assms(1) by (cases "transit_duration s") simp
  have "half_duration v = PInf \<or> half_duration v = MInf \<or> half_duration v = NaN"
    using assms(2)
    by (cases v) (simp_all add: half_duration_def q_to_def q_div_scalar_def u_minute_def
          u_day_def signed_inf_def)
  then show ?thesis
    using assms(3,4) by (auto simp: window_def 1 time_add_def time_shift_def)
qed

lemma window_error:
  "fst (transit_duration s) = Inl e \<Longrightarrow> supported ck T0 \<Longrightarrow> supported ck (T0 + of_int n * P) \<Longrightarrow>
   window ck T0 P s n = (Inl e, s)"
  by (auto simp: window_def transit_duration_def time_add_def split: option.splits sum.splits)

lemma covers_spec_window:
  "covers (spec_window T0 P d n) t \<longleftrightarrow>
     T0 + of_int n * P - d / 2880 \<le> t \<and> t \<le> T0 + of_int n * P + d / 2880"
  by (simp add: covers_def spec_window_def)

lemma seconds_cancel: "((t - T0) * 86400) / (P * 86400) = (t - T0) / (P::real)"
  by (rule mult_divide_mult_cancel_right) simp

lemma period_index_nonzero:
  assumes "P \<noteq> 0" and "supported ck t" and "supported ck T0"
  shows "period_index ck t T0 P = Inr \<lfloor>(t - T0) / P\<rfloor>"
proof -
  have sb: "seconds_between ck t T0 = Inr ((t - T0) * 86400)"
    using assms(2,3) by (simp add: seconds_between_def)
  have nz: "P * 86400 \<noteq> 0"
    using assms(1) by simp
  show ?thesis
    unfolding period_index_def bind_err_def sb sum.case if_not_P [OF nz] seconds_cancel ..
qed


lemma getattr_float_Inr:
  "getattr_float d nm = Inr x \<longleftrightarrow> d nm = Some (PyFloat x)"
  by (auto simp: getattr_float_def split: option.splits pyval.splits)


lemma in_transit_finite:
  assumes "dict (planet st) ''transittime'' = Some (PyFloat J)"
    and "dict (planet st) ''period'' = Some (PyFloat P)"
    and "P \<noteq> 0"
    and "fst (transit_duration s) = Inr (Fin d)"
    and "from_jd ck J = T0"
    and "in_transit_supported ck T0 P d t"
  shows "fst (in_transit ck (Some st) s (TimeVal t) wt) =
           Inr (if covers (spec_window T0 P d \<lfloor>(t - T0) / P\<rfloor>) t
                then in_transit_return ck wt True (spec_window T0 P d \<lfloor>(t - T0) / P\<rfloor>)
                else in_transit_return ck wt (covers (spec_window T0 P d (\<lfloor>(t - T0) / P\<rfloor> + 1)) t)
                       (spec_window T0 P d (\<lfloor>(t - T0) / P\<rfloor> + 1)))"
proof -
  have g: "getattr_float (dict (planet st)) ''transittime'' = Inr J"
    "getattr_float (dict (planet st)) ''period'' = Inr P"
    using assms(1,2) by (simp_all add: getattr_float_Inr)
  from assms(6) have st: "supported ck t" "supported ck T0"
    and s1: "window_supported ck T0 P d \<lfloor>(t - T0) / P\<rfloor>"
    and s2: "window_supported ck T0 P d (\<lfloor>(t - T0) / P\<rfloor> + 1)"
    by (simp_all add: in_transit_supported_def window_supported_def)
  note w1 = window_finite [OF assms(4) s1]
  note w2 = window_finite [OF duration_after [OF assms(4)] s2]
  show ?thesis
    by (simp add: in_transit_def to_time_def g assms(5)
          period_index_nonzero [OF assms(3) st] w1 w2)
qed

text \<open>The loop under a positive period: it ends, and with exactly these windows.\<close>

lemma ingress_le_iff:
  assumes "0 < P"
  shows "T0 + of_int n * P - h \<le> t1 \<longleftrightarrow> n \<le> \<lfloor>(t1 + h - T0) / P\<rfloor>"
proof -
  have "T0 + of_int n * P - h \<le> t1 \<longleftrightarrow> of_int n * P \<le> t1 + h - T0" by auto
  also have "\<dots> \<longleftrightarrow> of_int n \<le> (t1 + h - T0) / P"
    using assms by (simp add: pos_le_divide_eq)
  also have "\<dots> \<longleftrightarrow> n \<le> \<lfloor>(t1 + h - T0) / P\<rfloor>"
    by (simp add: le_floor_iff)
  finally show ?thesis .
qed

lemma transits_loop_total:
  assumes "0 < P" and "fst (transit_duration s) = Inr (Fin d)"
    and "\<forall>n. num \<le> n \<and> n \<le> max num (\<lfloor>(t1 + d / 2880 - T0) / P\<rfloor> + 1)
            \<longrightarrow> window_supported ck T0 P d n"
  shows "transits_loop ck T0 P t1 num acc s =
           Some (Inr (acc @ map (\<lambda>n. Transit ck (spec_window T0 P d n))
                              [num..\<lfloor>(t1 + d / 2880 - T0) / P\<rfloor>]),
                 snd (transit_duration s))"
  using assms(2,3)
proof (induction "nat (\<lfloor>(t1 + d / 2880 - T0) / P\<rfloor> + 1 - num)" arbitrary: num acc s)
  case 0
  then have gt: "\<not> num \<le> \<lfloor>(t1 + d / 2880 - T0) / P\<rfloor>" by simp
  then have "t1 < T0 + of_int num * P - d / 2880"
    using ingress_le_iff [OF assms(1), of T0 num "d / 2880" t1] by simp
  moreover have "window_supported ck T0 P d num"
    using "0.prems"(2) by simp
  ultimately show ?case
    using gt by (subst transits_loop.simps)
      (simp add: window_finite [OF "0.prems"(1)] spec_window_def)
next
  case (Suc k)
  then have le: "num \<le> \<lfloor>(t1 + d / 2880 - T0) / P\<rfloor>" by simp
  then have ing: "T0 + of_int num * P - d / 2880 \<le> t1"
    using ingress_le_iff [OF assms(1), of T0 num "d / 2880" t1] by simp
  let ?s1 = "snd (transit_duration s)"
  have d1: "fst (transit_duration ?s1) = Inr (Fin d)"
    by (rule duration_after [OF Suc.prems(1)])
  have k: "k = nat (\<lfloor>(t1 + d / 2880 - T0) / P\<rfloor> + 1 - (num + 1))"
    using Suc.hyps(2) by simp
  have s11: "snd (transit_duration ?s1) = ?s1"
    using transit_duration_again [OF Suc.prems(1)] by simp
  have sup: "window_supported ck T0 P d num"
    using Suc.prems(2) by simp
  have sup': "\<forall>n. num + 1 \<le> n \<and> n \<le> max (num + 1) (\<lfloor>(t1 + d / 2880 - T0) / P\<rfloor> + 1)
                \<longrightarrow> window_supported ck T0 P d n"
    using Suc.prems(2) le by auto
  have step: "transits_loop ck T0 P t1 num acc s
               = transits_loop ck T0 P t1 (num + 1) (acc @ [Transit ck (spec_window T0 P d num)]) ?s1"
    using ing by (subst transits_loop.simps)
      (simp add: window_finite [OF Suc.prems(1) sup] spec_window_def)
  show ?case
    unfolding step Suc.hyps(1) [OF k d1 sup'] s11
    using le by (simp add: upto_rec1 [of num])
qed


text \<open>
  \<open>transits_in_range\<close> and the planet the module-level \<open>star\<close> points to: with that planet's
  reference transit and positive period and a finite duration of the receiver, and while the
  instants stay in the range of the calendar, the call ends and returns the windows from the
  index before the start's up to the last one whose ingress is not after the end, in
  increasing order of index.
\<close>

lemma transits_in_range_total:
  assumes "dict (planet st) ''transittime'' = Some (PyFloat J)"
    and "dict (planet st) ''period'' = Some (PyFloat P)"
    and "0 < P"
    and "fst (transit_duration s) = Inr (Fin d)"
    and "from_jd ck J = T0"
    and "supported ck t0" and "supported ck T0"
    and "\<forall>n. \<lfloor>(t0 - T0) / P\<rfloor> - 1 \<le> n \<and>
              n \<le> max (\<lfloor>(t0 - T0) / P\<rfloor> - 1) (\<lfloor>(t1 + d / 2880 - T0) / P\<rfloor> + 1)
            \<longrightarrow> window_supported ck T0 P d n"
  shows "transits_in_range ck (Some st) s (TimeVal t0) (TimeVal t1) k =
           Some (Inr (map (\<lambda>n. Transit ck (spec_window T0 P d n))
                        [\<lfloor>(t0 - T0) / P\<rfloor> - 1..\<lfloor>(t1 + d / 2880 - T0) / P\<rfloor>]),
                 snd (transit_duration s))"
proof -
  have g: "getattr_float (dict (planet st)) ''transittime'' = Inr J"
    "getattr_float (dict (planet st)) ''period'' = Inr P"
    using assms(1,2) by (simp_all add: getattr_float_Inr)
  have nz: "P \<noteq> 0" using assms(3) by simp
  show ?thesis
    by (simp add: transits_in_range_def to_time_def g assms(5)
          period_index_nonzero [OF nz assms(6,7)]
          transits_loop_total [OF assms(3,4,8)])
qed



text \<open>
  Every method leaves the caches valid: \<open>caches_valid\<close> is an invariant of a planet from its
  construction on.
\<close>

lemma window_keeps_valid:
  assumes "caches_valid s"
  shows "caches_valid (snd (window ck T0 P s n))"
proof -
  obtain r1 s1 where 1: "transit_duration s = (r1, s1)" by (cases "transit_duration s")
  obtain r2 s2 where 2: "transit_duration s1 = (r2, s2)" by (cases "transit_duration s1")
  have v1: "caches_valid s1"
    using transit_duration_keeps_valid [OF assms] 1 by simp
  then have v2: "caches_valid s2"
    using transit_duration_keeps_valid [of s1] 2 by simp
  show ?thesis
    using assms v1 v2 by (simp add: window_def 1 2 split: sum.splits)
qed

lemma in_transit_keeps_valid:
  assumes "caches_valid s"
  shows "caches_valid (snd (in_transit ck g s t wt))"
proof -
  have inner: "caches_valid (snd
     (case window ck T0 P s num of
        (Inl e, s1) \<Rightarrow> (Inl e, s1)
      | (Inr w1, s1) \<Rightarrow>
          if covers w1 tv then (Inr (in_transit_return ck wt True w1), s1)
          else
            (case window ck T0 P s1 (num + 1) of
               (Inl e, s2) \<Rightarrow> (Inl e, s2)
             | (Inr w2, s2) \<Rightarrow>
                 (Inr (in_transit_return ck wt (covers w2 tv) w2), s2))))"
    for T0 P num tv
  proof -
    obtain r1 s1 where 1: "window ck T0 P s num = (r1, s1)" by (cases "window ck T0 P s num")
    obtain r2 s2 where 2: "window ck T0 P s1 (num + 1) = (r2, s2)"
      by (cases "window ck T0 P s1 (num + 1)")
    have v1: "caches_valid s1"
      using window_keeps_valid [OF assms, of ck T0 P num] 1 by simp
    then have v2: "caches_valid s2"
      using window_keeps_valid [of s1 ck T0 P "num + 1"] 2 by simp
    show ?thesis
      using v1 v2 by (simp add: 1 2 split: sum.splits)
  qed
  show ?thesis
    unfolding in_transit_def
    using assms inner by (simp split: sum.splits option.splits)
qed

lemma transits_loop_keeps_valid:
  assumes "transits_loop ck T0 P t1 num acc s = Some y"
  shows "caches_valid s \<longrightarrow> caches_valid (snd y)"
proof (rule transits_loop.raw_induct [OF _ assms])
  fix loop :: "clock \<Rightarrow> real \<Rightarrow> real \<Rightarrow> real \<Rightarrow> int \<Rightarrow> transit list \<Rightarrow> exoplanet
                 \<Rightarrow> ((error + transit list) \<times> exoplanet) option"
  fix ck T0 P t1 num acc s y
  assume IH: "\<And>ck T0 P t1 num acc s y. loop ck T0 P t1 num acc s = Some y \<Longrightarrow>
                caches_valid s \<longrightarrow> caches_valid (snd y)"
    and body: "(case window ck T0 P s num of
                  (Inl e, s1) \<Rightarrow> Some (Inl e, s1)
                | (Inr w, s1) \<Rightarrow>
                    if t1 < t_ingress w then Some (Inr acc, s1)
                    else loop ck T0 P t1 (num + 1) (acc @ [Transit ck w]) s1) = Some y"
  show "caches_valid s \<longrightarrow> caches_valid (snd y)"
  proof
    assume "caches_valid s"
    then have "caches_valid (snd (window ck T0 P s num))"
      by (rule window_keeps_valid)
    with body IH show "caches_valid (snd y)"
      by (auto split: prod.splits sum.splits if_splits)
  qed
qed

text \<open>
  Under a positive period the loop ends whatever the range of the calendar is: with the list,
  or with ErfaError at the first window the library cannot compute.
\<close>

lemma transits_loop_ends:
  assumes "0 < P" and "fst (transit_duration s) = Inr (Fin d)"
  shows "\<exists>y. transits_loop ck T0 P t1 num acc s = Some y"
  using assms(2)
proof (induction "nat (\<lfloor>(t1 + d / 2880 - T0) / P\<rfloor> + 1 - num)" arbitrary: num acc s)
  case 0
  show ?case
  proof (cases "window_supported ck T0 P d num")
    case True
    from 0 have "\<not> num \<le> \<lfloor>(t1 + d / 2880 - T0) / P\<rfloor>" by simp
    then have "t1 < T0 + of_int num * P - d / 2880"
      using ingress_le_iff [OF assms(1), of T0 num "d / 2880" t1] by simp
    then show ?thesis
      by (subst transits_loop.simps)
        (simp add: window_finite [OF "0.prems" True] spec_window_def)
  next
    case False
    from window_unsupported [OF "0.prems" False] show ?thesis
      by (subst transits_loop.simps) (cases "window ck T0 P s num", simp)
  qed
next
  case (Suc k)
  show ?case
  proof (cases "window_supported ck T0 P d num")
    case True
    let ?s1 = "snd (transit_duration s)"
    have d1: "fst (transit_duration ?s1) = Inr (Fin d)"
      by (rule duration_after [OF Suc.prems])
    have k: "k = nat (\<lfloor>(t1 + d / 2880 - T0) / P\<rfloor> + 1 - (num + 1))"
      using Suc.hyps(2) by simp
    from Suc.hyps(1) [OF k d1]
    obtain y where "transits_loop ck T0 P t1 (num + 1)
                      (acc @ [Transit ck (spec_window T0 P d num)]) ?s1 = Some y"
      by blast
    then show ?thesis
      by (subst transits_loop.simps) (simp add: window_finite [OF Suc.prems True])
  next
    case False
    from window_unsupported [OF Suc.prems False] show ?thesis
      by (subst transits_loop.simps) (cases "window ck T0 P s num", simp)
  qed
qed

text \<open>
  Under a negative period the windows run backward in time. Once an ingress is not after the
  end none of the later ones is, and the loop goes on until the library cannot compute a
  window: with a calendar that has a first instant the loop ends, with ErfaError.
\<close>

lemma transits_loop_backward:
  assumes "P < 0" and "\<forall>x. supported ck x \<longrightarrow> L \<le> x"
    and "fst (transit_duration s) = Inr (Fin d)"
    and "T0 + of_int num * P - d / 2880 \<le> t1"
  shows "\<exists>s'. transits_loop ck T0 P t1 num acc s = Some (Inl ErfaError, s')"
  using assms(3,4)
proof (induction "nat (\<lfloor>(L - (T0 + of_int num * P)) / P\<rfloor> + 1)" arbitrary: num acc s)
  case 0
  define y where "y = (L - (T0 + of_int num * P)) / P"
  from "0.hyps" have "\<lfloor>y\<rfloor> + 1 \<le> 0"
    unfolding y_def by linarith
  then have "y < 0"
    by linarith
  then have "T0 + of_int num * P < L"
    using assms(1) unfolding y_def by (simp add: divide_less_0_iff)
  then have "\<not> supported ck (T0 + of_int num * P)"
    using assms(2) by auto
  then have "\<not> window_supported ck T0 P d num"
    by (simp add: window_supported_def)
  from window_unsupported [OF "0.prems"(1) this] show ?case
    by (subst transits_loop.simps) (cases "window ck T0 P s num", simp)
next
  case (Suc k)
  show ?case
  proof (cases "window_supported ck T0 P d num")
    case True
    let ?s1 = "snd (transit_duration s)"
    have d1: "fst (transit_duration ?s1) = Inr (Fin d)"
      by (rule duration_after [OF Suc.prems(1)])
    have "(L - (T0 + of_int (num + 1) * P)) / P = (L - (T0 + of_int num * P)) / P - 1"
      using assms(1) by (simp add: field_simps)
    then have "\<lfloor>(L - (T0 + of_int (num + 1) * P)) / P\<rfloor>
                 = \<lfloor>(L - (T0 + of_int num * P)) / P\<rfloor> - 1"
      by (simp only: floor_diff_one)
    then have k: "k = nat (\<lfloor>(L - (T0 + of_int (num + 1) * P)) / P\<rfloor> + 1)"
      using Suc.hyps(2) by linarith
    have le: "T0 + of_int (num + 1) * P - d / 2880 \<le> t1"
      using Suc.prems(2) assms(1) by (simp add: algebra_simps)
    from Suc.hyps(1) [OF k d1 le]
    obtain s' where "transits_loop ck T0 P t1 (num + 1)
                       (acc @ [Transit ck (spec_window T0 P d num)]) ?s1 = Some (Inl ErfaError, s')"
      by blast
    then show ?thesis
      using Suc.prems(2)
      by (subst transits_loop.simps)
        (simp add: window_finite [OF Suc.prems(1) True] spec_window_def)
  next
    case False
    from window_unsupported [OF Suc.prems(1) False] show ?thesis
      by (subst transits_loop.simps) (cases "window ck T0 P s num", simp)
  qed
qed

text \<open>
  So \<open>transits_in_range\<close> ends whenever the planet the module-level \<open>star\<close> points to has a
  positive period and the receiver a finite duration.
\<close>

lemma transits_in_range_ends:
  assumes "dict (planet st) ''transittime'' = Some (PyFloat J)"
    and "dict (planet st) ''period'' = Some (PyFloat P)"
    and "0 < P"
    and "fst (transit_duration s) = Inr (Fin d)"
  shows "\<exists>y. transits_in_range ck (Some st) s (TimeVal t0) (TimeVal t1) k = Some y"
proof -
  have g: "getattr_float (dict (planet st)) ''transittime'' = Inr J"
    "getattr_float (dict (planet st)) ''period'' = Inr P"
    using assms(1,2) by (simp_all add: getattr_float_Inr)
  show ?thesis
    using transits_loop_ends [OF assms(3,4)]
    by (simp add: transits_in_range_def to_time_def g split: sum.splits)
qed

subsection \<open>The example clock\<close>

lemma undecimal_snoc: "undecimal (s @ [c]) = 10 * undecimal s + (of_char c - 48)"
  by (simp add: undecimal_def)

lemma digit_value: "k < 10 \<Longrightarrow> of_char (digit k) - 48 = k"
proof -
  assume "k < 10"
  then have "k \<in> {0, 1, 2, 3, 4, 5, 6, 7, 8, 9}" by auto
  then show ?thesis
    by (auto simp: digit_def)
qed

lemma undecimal_decimal: "undecimal (decimal n) = n"
proof (induction n rule: decimal.induct)
  case (1 n)
  show ?case
  proof (cases "n < 10")
    case True
    then show ?thesis
      by (subst decimal.simps) (simp add: undecimal_def digit_value)
  next
    case False
    have "of_char (digit (n mod 10)) - 48 = n mod 10"
      by (rule digit_value) simp
    with False 1 show ?thesis
      by (subst decimal.simps) (simp add: undecimal_snoc)
  qed
qed

lemma decimal_nonempty: "decimal n \<noteq> []"
  by (subst decimal.simps) simp

lemma digit_is_digit: "k < 10 \<Longrightarrow> digit k \<in> set ''0123456789''"
  unfolding digit_def by (rule nth_mem) simp

lemma decimal_digits: "list_all (\<lambda>c. c \<in> set ''0123456789'') (decimal n)"
proof (induction n rule: decimal.induct)
  case (1 n)
  show ?case
  proof (cases "n < 10")
    case True
    then show ?thesis
      using digit_is_digit [of n] by (subst decimal.simps) simp
  next
    case False
    then show ?thesis
      using 1 digit_is_digit [of "n mod 10"] by (subst decimal.simps) simp
  qed
qed

lemma is_decimal_decimal: "is_decimal (decimal n)"
  unfolding is_decimal_def using decimal_nonempty decimal_digits by blast


lemma ms_clock_fields:
  "from_jd ms_clock x = x"
  "supported ms_clock x \<longleftrightarrow> 0 \<le> x \<and> x \<le> 5000000"
  "isot ms_clock x = decimal (ms_count x)"
  "parse_time ms_clock (decimal n) = Some (real n / 86400000)"
  by (simp_all add: ms_clock_def is_decimal_decimal undecimal_decimal)

lemma ms_count_whole: "x * 86400000 = real N \<Longrightarrow> ms_count x = N"
  by (simp add: ms_count_def)

lemma ms_read_back:
  "x * 86400000 = real N \<Longrightarrow> parse_time ms_clock (isot ms_clock x) = Some x"
  by (simp add: ms_clock_fields ms_count_whole [of x N] field_simps)


subsection \<open>The example planet under different bindings of \<open>star\<close>\<close>

lemma example_arg_bounds:
  "19 / 100 \<le> transit_arcsin_arg 90 (813 / 1000) (1305 / 1000) (226 / 10000)"
  "transit_arcsin_arg 90 (813 / 1000) (1305 / 1000) (226 / 10000) \<le> 1"
  by (simp_all add: transit_arcsin_arg_def transit_radicand_def cos_right_angle
       u_R_sun_def u_R_jup_def u_AU_def)

text \<open>The duration of the example's geometry under a period of \<open>P\<close> days, in minutes.\<close>

lemma formula_bounds:
  assumes "0 < P"
  shows "68 * P \<le> transit_formula 90 (813 / 1000) (1305 / 1000) P (226 / 10000)"
    and "transit_formula 90 (813 / 1000) (1305 / 1000) P (226 / 10000) \<le> 720 * P"
proof -
  let ?x = "transit_arcsin_arg 90 (813 / 1000) (1305 / 1000) (226 / 10000)"
  note r = example_arg_bounds
  have r0: "- 1 \<le> ?x" "0 \<le> ?x" using r(1) by simp_all
  have "arcsin 0 \<le> arcsin ?x"
    using r0 r(2) by (intro arcsin_le_arcsin) simp_all
  then have "sin (arcsin ?x) \<le> arcsin ?x"
    by (intro sin_x_le_x) simp
  then have lo: "19 / 100 \<le> arcsin ?x"
    using r(1) sin_arcsin [OF r0(1) r(2)] by simp
  have hi: "arcsin ?x \<le> pi / 2"
    using r0(1) r(2) by (rule arcsin_ubound)
  have c: "0 \<le> P * 1440 / pi"
    using assms by simp
  have e: "transit_formula 90 (813 / 1000) (1305 / 1000) P (226 / 10000)
             = P * 1440 / pi * arcsin ?x"
    by (simp add: transit_formula_def)
  have "P * (68 * pi) \<le> P * (1440 * (19 / 100))"
    using pi_less_4 assms by (intro mult_left_mono) simp_all
  then have "68 * P \<le> P * 1440 / pi * (19 / 100)"
    using pi_gt_zero by (simp add: field_simps)
  also have "\<dots> \<le> P * 1440 / pi * arcsin ?x"
    using lo c by (rule mult_left_mono)
  finally show "68 * P \<le> transit_formula 90 (813 / 1000) (1305 / 1000) P (226 / 10000)"
    unfolding e .
  have "P * 1440 / pi * arcsin ?x \<le> P * 1440 / pi * (pi / 2)"
    using hi c by (rule mult_left_mono)
  also have "\<dots> = 720 * P"
    by simp
  finally show "transit_formula 90 (813 / 1000) (1305 / 1000) P (226 / 10000) \<le> 720 * P"
    unfolding e .
qed

lemma example_minutes_bounds: "0 < example_minutes \<and> 88 < example_minutes \<and> example_minutes < 941"
  using formula_bounds [of "130619 / 100000"] by (simp add: example_minutes_def)



lemma example_fields:
  "dict example_planet ''inclination'' = Some (PyFloat 90)"
  "star example_planet = Some example_star_dict"
  "example_star_dict ''radius'' = Some (PyFloat (813 / 1000))"
  "dict example_planet ''radius'' = Some (PyFloat (1305 / 1000))"
  "dict example_planet ''period'' = Some (PyFloat (130619 / 100000))"
  "dict example_planet ''semimajoraxis'' = Some (PyFloat (226 / 10000))"
  by (simp_all add: example_planet_def example_star_dict_def)

lemma example_duration: "fst (transit_duration example_planet) = Inr (Fin example_minutes)"
  unfolding transit_duration_valid [OF example_planet_valid]
    transit_duration_uncached_fields [OF example_fields]
    spec_in_domain [OF example_in_domain] example_minutes_def ..








lemma example_star_fields:
  "dict (planet example_star) ''transittime'' = Some (PyFloat example_T0)"
  "dict (planet example_star) ''period'' = Some (PyFloat (130619 / 100000))"
  by (simp_all add: example_star_def example_planet_def example_T0_def)

lemma other_star_fields:
  "dict (planet other_star) ''transittime'' = Some (PyFloat (example_T0 + 5))"
  "dict (planet other_star) ''period'' = Some (PyFloat 10)"
  by (simp_all add: other_star_def other_planet_def example_T0_def)


lemma example_time_fields:
  "dict example_planet ''transittime'' = Some (PyFloat example_T0)"
  "dict example_planet ''period'' = Some (PyFloat (130619 / 100000))"
  by (simp_all add: example_planet_def example_T0_def)

text \<open>The windows of the examples lie in the range of the example clock.\<close>

lemma example_windows_supported:
  assumes "- 3 \<le> n" and "n \<le> 3"
  shows "window_supported ms_clock example_T0 (130619 / 100000) example_minutes n"
proof -
  have "- 3 \<le> (of_int n :: real)" "(of_int n :: real) \<le> 3"
    using assms by simp_all
  then show ?thesis
    using example_minutes_bounds
    by (simp add: window_supported_def ms_clock_fields example_T0_def)
qed

lemma other_windows_supported:
  assumes "- 3 \<le> n" and "n \<le> 3"
  shows "window_supported ms_clock (example_T0 + 5) 10 example_minutes n"
proof -
  have "- 3 \<le> (of_int n :: real)" "(of_int n :: real) \<le> 3"
    using assms by simp_all
  then show ?thesis
    using example_minutes_bounds
    by (simp add: window_supported_def ms_clock_fields example_T0_def)
qed



lemma example_T0_supported: "supported ms_clock example_T0" "supported ms_clock (example_T0 + 5)"
  by (simp_all add: ms_clock_fields example_T0_def)

lemma own_range:
  "transits_in_range ms_clock (Some example_star) example_planet
     (TimeVal example_T0) (TimeVal (example_T0 + 2)) 10
   = Some (Inr (map (\<lambda>n. Transit ms_clock (spec_window example_T0 (130619 / 100000) example_minutes n))
                  [- 1, 0, 1]),
           snd (transit_duration example_planet))"
proof -
  have lo: "\<lfloor>(example_T0 - example_T0) / (130619 / 100000)\<rfloor> - 1 = - 1" by simp
  have hi: "\<lfloor>(example_T0 + 2 + example_minutes / 2880 - example_T0) / (130619 / 100000)\<rfloor> = 1"
    using example_minutes_bounds by (intro floor_unique) (simp_all add: field_simps)
  have l: "[- 1..1::int] = [- 1, 0, 1]" by (simp add: upto.simps)
  have pos: "(0::real) < 130619 / 100000" by simp
  have sup: "\<forall>n. \<lfloor>(example_T0 - example_T0) / (130619 / 100000)\<rfloor> - 1 \<le> n \<and>
       n \<le> max (\<lfloor>(example_T0 - example_T0) / (130619 / 100000)\<rfloor> - 1)
              (\<lfloor>(example_T0 + 2 + example_minutes / 2880 - example_T0) / (130619 / 100000)\<rfloor> + 1)
     \<longrightarrow> window_supported ms_clock example_T0 (130619 / 100000) example_minutes n"
    unfolding lo hi by (auto intro: example_windows_supported)
  show ?thesis
    unfolding transits_in_range_total [OF example_star_fields pos example_duration
        ms_clock_fields(1) example_T0_supported(1) example_T0_supported(1) sup] lo hi l
    by simp
qed

lemma other_range:
  "transits_in_range ms_clock (Some other_star) example_planet
     (TimeVal example_T0) (TimeVal (example_T0 + 2)) 10
   = Some (Inr (map (\<lambda>n. Transit ms_clock (spec_window (example_T0 + 5) 10 example_minutes n))
                  [- 2, - 1]),
           snd (transit_duration example_planet))"
proof -
  have lo: "\<lfloor>(example_T0 - (example_T0 + 5)) / 10\<rfloor> - 1 = - 2"
  proof -
    have "\<lfloor>(example_T0 - (example_T0 + 5)) / 10\<rfloor> = - 1"
      by (intro floor_unique) simp_all
    then show ?thesis by simp
  qed
  have hi: "\<lfloor>(example_T0 + 2 + example_minutes / 2880 - (example_T0 + 5)) / 10\<rfloor> = - 1"
    using example_minutes_bounds by (intro floor_unique) (simp_all add: field_simps)
  have l: "[- 2..- 1::int] = [- 2, - 1]" by (simp add: upto.simps)
  have pos: "(0::real) < 10" by simp
  have sup: "\<forall>n. \<lfloor>(example_T0 - (example_T0 + 5)) / 10\<rfloor> - 1 \<le> n \<and>
       n \<le> max (\<lfloor>(example_T0 - (example_T0 + 5)) / 10\<rfloor> - 1)
              (\<lfloor>(example_T0 + 2 + example_minutes / 2880 - (example_T0 + 5)) / 10\<rfloor> + 1)
     \<longrightarrow> window_supported ms_clock (example_T0 + 5) 10 example_minutes n"
    unfolding lo hi by (auto intro: other_windows_supported)
  show ?thesis
    unfolding transits_in_range_total [OF other_star_fields pos example_duration
        ms_clock_fields(1) example_T0_supported(1) example_T0_supported(2) sup] lo hi l
    by simp
qed

lemma own_in_transit:
  "fst (in_transit ms_clock (Some example_star) example_planet (TimeVal example_T0) False)
     = Inr (Flag True)"
proof -
  have nz: "(130619 / 100000 :: real) \<noteq> 0" by simp
  have fl: "\<lfloor>(example_T0 - example_T0) / (130619 / 100000)\<rfloor> = 0" by simp
  have sup: "in_transit_supported ms_clock example_T0 (130619 / 100000) example_minutes example_T0"
    unfolding in_transit_supported_def fl
    by (simp add: example_windows_supported example_T0_supported)
  show ?thesis
    unfolding in_transit_finite [OF example_star_fields nz example_duration ms_clock_fields(1) sup] fl
    using example_minutes_bounds by (simp add: covers_spec_window in_transit_return_def)
qed

lemma other_in_transit:
  "fst (in_transit ms_clock (Some other_star) example_planet (TimeVal example_T0) False)
     = Inr (Flag False)"
proof -
  have nz: "(10 :: real) \<noteq> 0" by simp
  have fl: "\<lfloor>(example_T0 - (example_T0 + 5)) / 10\<rfloor> = - 1"
    by (intro floor_unique) simp_all
  have sup: "in_transit_supported ms_clock (example_T0 + 5) 10 example_minutes example_T0"
    unfolding in_transit_supported_def fl
    by (simp add: other_windows_supported example_T0_supported)
  show ?thesis
    unfolding in_transit_finite [OF other_star_fields nz example_duration ms_clock_fields(1) sup] fl
    using example_minutes_bounds by (simp add: covers_spec_window in_transit_return_def)
qed

lemma unbound_star:
  "fst (in_transit ms_clock None example_planet (TimeVal example_T0) False) = Inl NameError"
  "map_option fst (transits_in_range ms_clock None example_planet
     (TimeVal example_T0) (TimeVal (example_T0 + 2)) 10) = Some (Inl NameError)"
  by (simp_all add: in_transit_def transits_in_range_def to_time_def)

lemma periodless_range:
  "map_option fst (transits_in_range ms_clock (Some periodless_star) example_planet
     (TimeVal example_T0) (TimeVal (example_T0 + 2)) 10) = Some (Inl AttributeError)"
  by (simp add: transits_in_range_def to_time_def periodless_star_def getattr_float_def)

text \<open>What the midpoint texts of the two lists stand for.\<close>

lemma example_read_back:
  "parse_time ms_clock (isot ms_clock (example_T0 - 130619 / 100000))
     = Some (example_T0 - 130619 / 100000)"
  "parse_time ms_clock (isot ms_clock example_T0) = Some example_T0"
  "parse_time ms_clock (isot ms_clock (example_T0 + 130619 / 100000))
     = Some (example_T0 + 130619 / 100000)"
  "parse_time ms_clock (isot ms_clock (example_T0 - 15)) = Some (example_T0 - 15)"
  "parse_time ms_clock (isot ms_clock (example_T0 - 5)) = Some (example_T0 - 5)"
proof -
  show "parse_time ms_clock (isot ms_clock (example_T0 - 130619 / 100000))
     = Some (example_T0 - 130619 / 100000)"
    by (rule ms_read_back [of _ 212142893198688]) (simp add: example_T0_def)
  show "parse_time ms_clock (isot ms_clock example_T0) = Some example_T0"
    by (rule ms_read_back [of _ 212143006053504]) (simp add: example_T0_def)
  show "parse_time ms_clock (isot ms_clock (example_T0 + 130619 / 100000))
     = Some (example_T0 + 130619 / 100000)"
    by (rule ms_read_back [of _ 212143118908320]) (simp add: example_T0_def)
  show "parse_time ms_clock (isot ms_clock (example_T0 - 15)) = Some (example_T0 - 15)"
    by (rule ms_read_back [of _ 212141710053504]) (simp add: example_T0_def)
  show "parse_time ms_clock (isot ms_clock (example_T0 - 5)) = Some (example_T0 - 5)"
    by (rule ms_read_back [of _ 212142574053504]) (simp add: example_T0_def)
qed

lemma own_midpoints:
  "returned_midpoints ms_clock (transits_in_range ms_clock (Some example_star) example_planet
       (TimeVal example_T0) (TimeVal (example_T0 + 2)) 10)
     = Some (Inr [Some (example_T0 - 130619 / 100000), Some example_T0,
                  Some (example_T0 + 130619 / 100000)])"
  unfolding own_range
  using example_read_back
  by (simp add: returned_midpoints_def Transit_def spec_window_def)

lemma other_midpoints:
  "returned_midpoints ms_clock (transits_in_range ms_clock (Some other_star) example_planet
       (TimeVal example_T0) (TimeVal (example_T0 + 2)) 10)
     = Some (Inr [Some (example_T0 - 15), Some (example_T0 - 5)])"
  unfolding other_range
  using example_read_back
  by (simp add: returned_midpoints_def Transit_def spec_window_def)

text \<open>
  Claim C1 says that \<open>in_transit\<close> and \<open>transits_in_range\<close> take the reference transit and the
  period from the receiver and depend on no module-level variable. The code reads both from
  the module-level \<open>star\<close>. For one and the same receiver and arguments: with \<open>star\<close> bound to
  the receiver's own star the reference epoch is in transit and the windows of the next two
  days are those of the receiver's orbit; with \<open>star\<close> bound to another star the same call
  says it is not in transit and returns windows of the other planet's orbit; with \<open>star\<close>
  unbound the call raises NameError. The midpoints are given as the instants their texts
  stand for.
\<close>

theorem C1_module_star_decides:
  "fst (in_transit ms_clock (Some example_star) example_planet (TimeVal example_T0) False)
     = Inr (Flag True) \<and>
   fst (in_transit ms_clock (Some other_star) example_planet (TimeVal example_T0) False)
     = Inr (Flag False) \<and>
   fst (in_transit ms_clock None example_planet (TimeVal example_T0) False) = Inl NameError \<and>
   returned_midpoints ms_clock (transits_in_range ms_clock (Some example_star) example_planet
       (TimeVal example_T0) (TimeVal (example_T0 + 2)) 10)
     = Some (Inr [Some (example_T0 - 130619 / 100000), Some example_T0,
                  Some (example_T0 + 130619 / 100000)]) \<and>
   returned_midpoints ms_clock (transits_in_range ms_clock (Some other_star) example_planet
       (TimeVal example_T0) (TimeVal (example_T0 + 2)) 10)
     = Some (Inr [Some (example_T0 - 15), Some (example_T0 - 5)])"
  by (simp add: own_in_transit other_in_transit unbound_star own_midpoints other_midpoints)

text \<open>
  Claim C3 says that the list holds the windows of the receiver's own orbit from the index
  before \<open>start\<close> on, one period apart. Here the receiver has period 1.30619 days, its duration
  is positive and shorter than its period, and \<open>star\<close> is bound to another star: the two
  midpoints returned are ten days apart and lie five and fifteen days before the receiver's
  reference transit, none of them a transit of the receiver.
\<close>

theorem C3_windows_follow_module_star:
  "dict example_planet ''transittime'' = Some (PyFloat example_T0) \<and>
   dict example_planet ''period'' = Some (PyFloat (130619 / 100000)) \<and>
   fst (transit_duration example_planet) = Inr (Fin example_minutes) \<and>
   0 < example_minutes \<and> example_minutes / 1440 < 130619 / 100000 \<and>
   returned_midpoints ms_clock (transits_in_range ms_clock (Some other_star) example_planet
       (TimeVal example_T0) (TimeVal (example_T0 + 2)) 10)
     = Some (Inr [Some (example_T0 - 15), Some (example_T0 - 5)])"
  using example_minutes_bounds
  by (simp add: example_duration other_midpoints example_time_fields)

text \<open>
  Claim C4 says that \<open>in_transit\<close> is true at every instant of a window of the receiver, so at
  its reference transit. Here the receiver has a positive period and a positive duration, and
  \<open>star\<close> is bound to another star: \<open>in_transit\<close> at the receiver's reference transit is false.
\<close>

theorem C4_reference_epoch_missed:
  "dict example_planet ''transittime'' = Some (PyFloat example_T0) \<and>
   dict example_planet ''period'' = Some (PyFloat (130619 / 100000)) \<and>
   fst (transit_duration example_planet) = Inr (Fin example_minutes) \<and>
   0 < example_minutes \<and>
   fst (in_transit ms_clock (Some other_star) example_planet (TimeVal example_T0) False)
     = Inr (Flag False)"
  using example_minutes_bounds
  by (simp add: example_duration other_in_transit example_time_fields)

text \<open>
  Claim C7 says that for a planet with a positive period and a finite duration
  \<open>transits_in_range\<close> ends and returns a list. Here the receiver is such a planet. With \<open>star\<close>
  bound to a star whose planet has no period the call raises AttributeError, and with \<open>star\<close>
  unbound it raises NameError: in neither case is a list returned.
\<close>

theorem C7_no_list_returned:
  "dict example_planet ''period'' = Some (PyFloat (130619 / 100000)) \<and>
   fst (transit_duration example_planet) = Inr (Fin example_minutes) \<and>
   map_option fst (transits_in_range ms_clock (Some periodless_star) example_planet
       (TimeVal example_T0) (TimeVal (example_T0 + 2)) 10) = Some (Inl AttributeError) \<and>
   map_option fst (transits_in_range ms_clock None example_planet
       (TimeVal example_T0) (TimeVal (example_T0 + 2)) 10) = Some (Inl NameError)"
  by (simp add: example_duration periodless_range unbound_star example_time_fields)


subsection \<open>From a returned window back to \<open>in_transit\<close>\<close>









subsection \<open>The unused parameter of \<open>transits_in_range\<close>\<close>

text \<open>
  Claim C10: for every planet, every binding of the module-level \<open>star\<close> and all bounds
  \<open>t0\<close> and \<open>t1\<close>, the outcome of \<open>transits_in_range(t0, t1, k)\<close> (the list, the error, or the
  loop that never ends) is the same for every value \<open>k\<close> of \<open>num_of_transits\<close>: the method
  never reads its third parameter.
\<close>

theorem C10_num_of_transits_ignored:
  "transits_in_range ck module_star self t0 t1 k
     = transits_in_range ck module_star self t0 t1 k'"
  by (simp add: transits_in_range_def)
end
